theory Spec2Isabelle
  imports Main
begin

section \<open>Text\<close>

text \<open>
  A Python \<^verbatim>\<open>str\<close> is modelled as a \<^typ>\<open>string\<close>, one \<^typ>\<open>char\<close> per character, the
  character being its code point. The type \<^typ>\<open>char\<close> has the code points 0 to 255, so the
  model covers text of that range (ASCII and Latin-1). The umlauts of the program's messages
  are written by their code points.
\<close>

abbreviation ae :: string where "ae \<equiv> [CHR 0xE4]"
abbreviation oe :: string where "oe \<equiv> [CHR 0xF6]"
abbreviation ue :: string where "ue \<equiv> [CHR 0xFC]"

text \<open>
  \<^verbatim>\<open>str.isspace\<close> on one character; it is also the class \<^verbatim>\<open>\s\<close> of \<^verbatim>\<open>re\<close> on a
  \<^verbatim>\<open>str\<close> pattern and the set that \<^verbatim>\<open>str.strip()\<close> removes.
\<close>

definition is_space :: "char \<Rightarrow> bool" where
  "is_space c \<longleftrightarrow>
     c \<in> set [CHR 0x09, CHR 0x0A, CHR 0x0B, CHR 0x0C, CHR 0x0D,
              CHR 0x1C, CHR 0x1D, CHR 0x1E, CHR 0x1F, CHR 0x20, CHR 0x85, CHR 0xA0]"

text \<open>The line boundaries of \<^verbatim>\<open>str.splitlines()\<close> (CR LF counts as one).\<close>

definition is_linebreak :: "char \<Rightarrow> bool" where
  "is_linebreak c \<longleftrightarrow>
     c \<in> set [CHR 0x0A, CHR 0x0B, CHR 0x0C, CHR 0x0D, CHR 0x1C, CHR 0x1D, CHR 0x1E, CHR 0x85]"

definition lower_char :: "char \<Rightarrow> char" where
  "lower_char c =
     (let n = (of_char c :: nat)
      in if (65 \<le> n \<and> n \<le> 90) \<or> (192 \<le> n \<and> n \<le> 222 \<and> n \<noteq> 215)
         then char_of (n + 32) else c)"

text \<open>
  \<^verbatim>\<open>str.upper()\<close>. The program applies it to boot ids only. Three characters of the range
  have an upper-case form that is not one character of the range (U+00B5, U+00DF, U+00FF);
  they are left as they are here.
\<close>

definition upper_char :: "char \<Rightarrow> char" where
  "upper_char c =
     (let n = (of_char c :: nat)
      in if (97 \<le> n \<and> n \<le> 122) \<or> (224 \<le> n \<and> n \<le> 254 \<and> n \<noteq> 247)
         then char_of (n - 32) else c)"

definition lower :: "string \<Rightarrow> string" where
  "lower s = map lower_char s"

definition upper :: "string \<Rightarrow> string" where
  "upper s = map upper_char s"

definition strip :: "string \<Rightarrow> string" where
  "strip s = rev (dropWhile is_space (rev (dropWhile is_space s)))"

definition startswith :: "string \<Rightarrow> string \<Rightarrow> bool" where
  "startswith s p \<longleftrightarrow> take (length p) s = p"

text \<open>\<^verbatim>\<open>sub in s\<close> on strings: \<open>sub\<close> occurs in \<open>s\<close> as a contiguous run.\<close>

fun contains :: "string \<Rightarrow> string \<Rightarrow> bool" where
  "contains [] sub \<longleftrightarrow> sub = []"
| "contains (c # cs) sub \<longleftrightarrow> startswith (c # cs) sub \<or> contains cs sub"

text \<open>\<^verbatim>\<open>s.split(sep)\<close> for a separator of one character: never the empty list.\<close>

fun split :: "char \<Rightarrow> string \<Rightarrow> string list" where
  "split sep [] = [[]]"
| "split sep (c # cs) =
     (if c = sep then [] # split sep cs
      else (case split sep cs of [] \<Rightarrow> [[c]] | x # xs \<Rightarrow> (c # x) # xs))"

fun join :: "string \<Rightarrow> string list \<Rightarrow> string" where
  "join sep [] = []"
| "join sep [x] = x"
| "join sep (x # y # ys) = x @ sep @ join sep (y # ys)"

fun splitlines :: "string \<Rightarrow> string list" where
  "splitlines [] = []"
| "splitlines (c # cs) =
     (if c = CHR 0x0D \<and> startswith cs [CHR 0x0A] then [] # splitlines (tl cs)
      else if is_linebreak c then [] # splitlines cs
      else (case splitlines cs of [] \<Rightarrow> [[c]] | l # ls \<Rightarrow> (c # l) # ls))"

text \<open>\<^verbatim>\<open>str(n)\<close> for an integer.\<close>

fun str_nat :: "nat \<Rightarrow> string" where
  "str_nat n =
     (if n < 10 then [''0123456789'' ! n]
      else str_nat (n div 10) @ [''0123456789'' ! (n mod 10)])"

definition str_int :: "int \<Rightarrow> string" where
  "str_int i = (if i < 0 then ''-'' @ str_nat (nat (- i)) else str_nat (nat i))"

definition str_bool :: "bool \<Rightarrow> string" where
  "str_bool b = (if b then ''True'' else ''False'')"

text \<open>
  \<^verbatim>\<open>repr\<close> of a string and of a list of strings, as the f-strings \<^verbatim>\<open>{order}\<close> print them:
  single quotes unless the string has a single and no double quote; the quote and the
  backslash escaped; tab, newline and carriage return by letter; every other character that
  is not printable as \<^verbatim>\<open>\xhh\<close>.
\<close>

definition hex2 :: "char \<Rightarrow> string" where
  "hex2 c =
     (let n = (of_char c :: nat)
      in [''0123456789abcdef'' ! (n div 16), ''0123456789abcdef'' ! (n mod 16)])"

definition is_printable :: "char \<Rightarrow> bool" where
  "is_printable c \<longleftrightarrow>
     (let n = (of_char c :: nat)
      in (32 \<le> n \<and> n < 127) \<or> (161 \<le> n \<and> n \<noteq> 173))"

definition repr_char :: "char \<Rightarrow> char \<Rightarrow> string" where
  "repr_char quote c =
     (if c = quote \<or> c = CHR 0x5C then [CHR 0x5C, c]
      else if c = CHR 0x09 then [CHR 0x5C, CHR ''t'']
      else if c = CHR 0x0A then [CHR 0x5C, CHR ''n'']
      else if c = CHR 0x0D then [CHR 0x5C, CHR ''r'']
      else if is_printable c then [c]
      else [CHR 0x5C, CHR ''x''] @ hex2 c)"

definition repr_str :: "string \<Rightarrow> string" where
  "repr_str s =
     (let quote = (if CHR 0x27 \<in> set s \<and> CHR 0x22 \<notin> set s then CHR 0x22 else CHR 0x27)
      in [quote] @ concat (map (repr_char quote) s) @ [quote])"

definition repr_list :: "string list \<Rightarrow> string" where
  "repr_list xs = ''['' @ join '', '' (map repr_str xs) @ '']''"

section \<open>Regular expressions of the program\<close>

text \<open>\<^verbatim>\<open>re.fullmatch(r"[0-9a-f]{4}", x)\<close>\<close>

definition is_boot_id :: "string \<Rightarrow> bool" where
  "is_boot_id x \<longleftrightarrow> length x = 4 \<and> list_all (\<lambda>c. c \<in> set ''0123456789abcdef'') x"

definition is_hex :: "char \<Rightarrow> bool" where
  "is_hex c \<longleftrightarrow> c \<in> set ''0123456789ABCDEFabcdef''"

text \<open>
  \<^verbatim>\<open>^BootOrder:\s*([0-9A-Fa-f,]+)\s*$\<close> with \<^verbatim>\<open>re.MULTILINE\<close>, tried at one position
  where \<^verbatim>\<open>^\<close> holds; the result is group 1. White space and the characters of the group are
  disjoint classes, so both greedy runs are maximal in every match: a shorter run leaves a
  character that the next part of the pattern rejects. After the group, \<^verbatim>\<open>\s*$\<close> needs
  white space up to the end of the text or up to some newline.
\<close>

definition match_boot_order_at :: "string \<Rightarrow> string option" where
  "match_boot_order_at s =
     (if startswith s ''BootOrder:'' then
        (let r1 = dropWhile is_space (drop 10 s);
             g = takeWhile (\<lambda>c. is_hex c \<or> c = CHR '','') r1;
             r2 = dropWhile (\<lambda>c. is_hex c \<or> c = CHR '','') r1;
             r3 = dropWhile (\<lambda>c. is_space c \<and> c \<noteq> CHR 0x0A) r2
         in if g \<noteq> [] \<and> (r3 = [] \<or> startswith r3 [CHR 0x0A]) then Some g else None)
      else None)"

text \<open>
  \<^verbatim>\<open>re.search\<close>: the leftmost match. \<open>bol\<close> tells whether \<^verbatim>\<open>^\<close> holds at the current
  position: at the start of the text and after each newline.
\<close>

fun search_boot_order :: "bool \<Rightarrow> string \<Rightarrow> string option" where
  "search_boot_order bol [] = None"
| "search_boot_order bol (c # cs) =
     (case (if bol then match_boot_order_at (c # cs) else None) of
        Some g \<Rightarrow> Some g
      | None \<Rightarrow> search_boot_order (c = CHR 0x0A) cs)"

text \<open>
  \<^verbatim>\<open>re.match(r"^Boot([0-9A-Fa-f]{4})\*?\s+(.*)$", line)\<close> on a stripped line of
  \<^verbatim>\<open>splitlines()\<close>, which holds no newline: \<^verbatim>\<open>.\<close> matches each of its characters and
  \<^verbatim>\<open>$\<close> only its end. The result is (group 1, group 2).
\<close>

definition match_entry :: "string \<Rightarrow> (string \<times> string) option" where
  "match_entry s =
     (if startswith s ''Boot'' then
        (let g1 = take 4 (drop 4 s);
             r1 = drop 8 s;
             r2 = (if startswith r1 ''*'' then drop 1 r1 else r1)
         in if length g1 = 4 \<and> list_all is_hex g1 \<and> takeWhile is_space r2 \<noteq> []
            then Some (g1, dropWhile is_space r2) else None)
      else None)"

section \<open>Dictionaries\<close>

text \<open>
  A \<^verbatim>\<open>dict\<close> keeps its items in the order of first insertion, and \<^verbatim>\<open>items()\<close> walks
  them in that order: an association list with one pair per key. Assigning to a key that is
  there replaces its value in place.
\<close>

type_synonym dict = "(string \<times> string) list"

fun dict_set :: "dict \<Rightarrow> string \<Rightarrow> string \<Rightarrow> dict" where
  "dict_set [] k v = [(k, v)]"
| "dict_set ((k', v') # kvs) k v =
     (if k' = k then (k, v) # kvs else (k', v') # dict_set kvs k v)"

definition dict_has :: "dict \<Rightarrow> string \<Rightarrow> bool" where
  "dict_has d k \<longleftrightarrow> map_of d k \<noteq> None"

section \<open>Exceptions, the process and its surroundings\<close>

text \<open>
  \<open>BootOrderError\<close> is the program's own exception class, \<open>OtherException\<close> stands for any
  other subclass of \<^verbatim>\<open>Exception\<close>, and \<open>KeyboardInterrupt\<close> is not a subclass of
  \<^verbatim>\<open>Exception\<close>. The string is \<^verbatim>\<open>str(e)\<close>.
\<close>

datatype exn = BootOrderError string | OtherException string | KeyboardInterrupt

datatype level = DEBUG | INFO | WARNING | ERROR

text \<open>
  What \<^verbatim>\<open>subprocess.run\<close> does on one call: it raises \<^verbatim>\<open>TimeoutExpired\<close>, raises an
  \<^verbatim>\<open>OSError\<close>, raises another exception (decoding the output as text can), is interrupted,
  or returns the exit status and the standard output.
\<close>

datatype proc = TimeoutExpired | OSError | Raises string | Interrupted | Completed int string

text \<open>What \<^verbatim>\<open>input()\<close> does: it returns a line, raises \<^verbatim>\<open>EOFError\<close>, or is interrupted.\<close>

datatype keyboard = Enter | EOF | CtrlC

text \<open>
  The state the program changes: the argument lists of the calls of the external tool, oldest
  first (a call is recorded when it is launched, whatever comes of it), the text files by
  path, and the log records emitted.
\<close>

record world =
  calls :: "string list list"
  files :: "string \<Rightarrow> string option"
  logged :: "(level \<times> string) list"

text \<open>
  The surroundings the program reads: whether \<^verbatim>\<open>sys\<close> has an attribute \<^verbatim>\<open>getuid\<close> and what
  it returns, whether \<^verbatim>\<open>shutil.which\<close> finds the tool, what a call of the tool does given the
  calls made before it and its arguments, whether writing a path raises (with the text of the
  exception, and the text the file is left with if the failure came after it was opened),
  whether reading a path raises (with the text of the exception), the clock, and the keyboard.
\<close>

record env =
  sys_has_getuid :: bool
  sys_getuid :: nat
  which_efibootmgr :: bool
  tool :: "string list list \<Rightarrow> string list \<Rightarrow> proc"
  write_raises :: "string \<Rightarrow> (string \<times> string option) option"
  read_raises :: "string \<Rightarrow> string option"
  now_isoformat :: string
  keyboard :: keyboard

text \<open>
  The parsed command line. \<^verbatim>\<open>--name\<close> and \<^verbatim>\<open>--id\<close> exclude each other and one of them
  is required; the one not given is \<^verbatim>\<open>None\<close>. The parser lower-cases the value of
  \<^verbatim>\<open>--id\<close>; \<open>parse_id\<close> is that conversion.
\<close>

record args =
  name :: "string option"
  id_arg :: "string option"
  exact :: bool
  backup :: string
  restore_from_backup :: bool
  no_prompt :: bool
  verbose :: bool

definition parse_id :: "string \<Rightarrow> string" where
  "parse_id s = lower s"

text \<open>The exit of the process: \<^verbatim>\<open>sys.exit(n)\<close> or falling off \<open>main\<close> (0), or an interrupt that nothing caught.\<close>

datatype exit = Exit nat | Killed_by_interrupt

definition logging :: "level \<Rightarrow> string \<Rightarrow> world \<Rightarrow> world" where
  "logging lvl msg w = w\<lparr>logged := logged w @ [(lvl, msg)]\<rparr>"

section \<open>The program\<close>

definition ensure_root :: "env \<Rightarrow> exn + unit" where
  "ensure_root E =
     (if sys_has_getuid E \<and> sys_getuid E \<noteq> 0
      then Inl (BootOrderError (''Dieses Skript muss mit Root-Rechten ausgef'' @ ue @ ''hrt werden (sudo).''))
      else Inr ())"

definition ensure_efibootmgr_available :: "env \<Rightarrow> exn + unit" where
  "ensure_efibootmgr_available E =
     (if \<not> which_efibootmgr E
      then Inl (BootOrderError ''efibootmgr ist nicht installiert oder nicht im PATH.'')
      else Inr ())"

definition run_efibootmgr :: "env \<Rightarrow> string list \<Rightarrow> world \<Rightarrow> (exn + string) \<times> world" where
  "run_efibootmgr E as w =
     (let w' = w\<lparr>calls := calls w @ [as]\<rparr>
      in case tool E (calls w) as of
           TimeoutExpired \<Rightarrow>
             (Inl (BootOrderError (''efibootmgr-Zugriff hat das Timeout (10s) '' @ ue @ ''berschritten.'')), w')
         | OSError \<Rightarrow>
             (Inl (BootOrderError (''efibootmgr konnte nicht ausgef'' @ ue @ ''hrt werden (OSError).'')), w')
         | Raises m \<Rightarrow> (Inl (OtherException m), w')
         | Interrupted \<Rightarrow> (Inl KeyboardInterrupt, w')
         | Completed returncode stdout \<Rightarrow>
             (if returncode \<noteq> 0
              then (Inl (BootOrderError (''efibootmgr-Fehler (rc='' @ str_int returncode @ '').'')), w')
              else if strip stdout = []
              then (Inl (BootOrderError ''efibootmgr lieferte leere Ausgabe.''), w')
              else (Inr stdout, w')))"

definition parse_boot_order :: "string \<Rightarrow> exn + string list" where
  "parse_boot_order output =
     (case search_boot_order True output of
        None \<Rightarrow> Inl (BootOrderError ''BootOrder konnte aus efibootmgr-Ausgabe nicht geparst werden.'')
      | Some g \<Rightarrow>
          (let order = map lower (split CHR '','' g)
           in if order = [] \<or> list_ex (\<lambda>x. \<not> is_boot_id x) order
              then Inl (BootOrderError (''BootOrder-Format ung'' @ ue @ ''ltig: '' @ repr_list order))
              else Inr order))"

definition parse_entries :: "string \<Rightarrow> exn + dict" where
  "parse_entries output =
     (let entries =
            fold (\<lambda>line entries.
                    case match_entry (strip line) of
                      Some (g1, g2) \<Rightarrow> dict_set entries (lower g1) (strip g2)
                    | None \<Rightarrow> entries)
                 (splitlines output) []
      in if entries = [] then Inl (BootOrderError (''Keine Boot-Eintr'' @ ae @ ''ge gefunden.''))
         else Inr entries)"

definition get_current_state :: "env \<Rightarrow> world \<Rightarrow> (exn + string list \<times> dict) \<times> world" where
  "get_current_state E w =
     (case run_efibootmgr E [] w of
        (Inl e, w') \<Rightarrow> (Inl e, w')
      | (Inr out, w') \<Rightarrow>
          (case parse_boot_order out of
             Inl e \<Rightarrow> (Inl e, w')
           | Inr order \<Rightarrow>
               (case parse_entries out of
                  Inl e \<Rightarrow> (Inl e, w')
                | Inr entries \<Rightarrow>
                    (let missing = filter (\<lambda>x. \<not> dict_has entries x) order
                     in if missing \<noteq> []
                        then (Inl (BootOrderError (''BootOrder enth'' @ ae @ ''lt unbekannte IDs: ''
                                                    @ join '', '' missing)), w')
                        else (Inr (order, entries), w')))))"

definition set_boot_order :: "env \<Rightarrow> string list \<Rightarrow> world \<Rightarrow> (exn + unit) \<times> world" where
  "set_boot_order E order w =
     (if order = []
      then (Inl (BootOrderError ''Leere BootOrder kann nicht gesetzt werden.''), w)
      else if list_ex (\<lambda>x. \<not> is_boot_id x) order
      then (Inl (BootOrderError (''Ung'' @ ue @ ''ltige Boot-ID im Order: '' @ repr_list order)), w)
      else (let order_str = join '','' (map upper order);
                w1 = logging INFO (''Setze BootOrder: '' @ order_str) w
            in case run_efibootmgr E [''-o'', order_str] w1 of
                 (Inl e, w2) \<Rightarrow> (Inl e, w2)
               | (Inr out, w2) \<Rightarrow> (Inr (), w2)))"

definition select_target_by_name :: "dict \<Rightarrow> string \<Rightarrow> bool \<Rightarrow> world \<Rightarrow> (exn + string) \<times> world" where
  "select_target_by_name entries nm ex w =
     (let name_ci = lower nm;
          matches = filter (\<lambda>(bid, desc). if ex then lower desc = name_ci
                                           else contains (lower desc) name_ci) entries
      in if matches = []
         then (Inl (BootOrderError (''Kein Eintrag gefunden f'' @ ue @ ''r Name='' @ [CHR 0x27] @ nm
                                     @ [CHR 0x27] @ '' (exact='' @ str_bool ex @ '').'')), w)
         else if length matches > 1
         then (Inl (BootOrderError (''Mehrdeutig: mehrere Eintr'' @ ae @ ''ge gefunden: ''
                                     @ join ''; '' (map (\<lambda>(bid, desc). upper bid @ '':'' @ desc) matches)
                                     @ ''. Nutzen Sie --exact oder --id.'')), w)
         else (let sel = fst (matches ! 0)
               in (Inr sel, logging INFO (''Name-Ziel gew'' @ ae @ ''hlt: '' @ upper sel @ '' -> ''
                                          @ snd (matches ! 0)) w)))"

text \<open>The text that \<open>write_backup\<close> writes, one \<^verbatim>\<open>f.write\<close> after the other.\<close>

definition backup_text :: "string \<Rightarrow> string list \<Rightarrow> dict \<Rightarrow> string" where
  "backup_text ts order entries =
     (''# Backup erstellt: '' @ ts)
     @ (''BootOrder='' @ join '','' (map upper order) @ '' '')
     @ concat (map (\<lambda>(bid, desc). ''BootEntry '' @ upper bid @ ''='' @ desc @ '' '') entries)"

definition write_backup :: "env \<Rightarrow> string \<Rightarrow> string list \<Rightarrow> dict \<Rightarrow> world \<Rightarrow> (exn + unit) \<times> world" where
  "write_backup E path order entries w =
     (case write_raises E path of
        Some (e, left) \<Rightarrow>
          (Inl (BootOrderError (''Backup konnte nicht geschrieben werden: '' @ path @ '' ('' @ e @ '')'')),
           (case left of None \<Rightarrow> w | Some t \<Rightarrow> w\<lparr>files := (files w)(path \<mapsto> t)\<rparr>))
      | None \<Rightarrow>
          (Inr (), logging INFO (''Backup geschrieben: '' @ path)
                     (w\<lparr>files := (files w)(path \<mapsto> backup_text (now_isoformat E) order entries)\<rparr>)))"

text \<open>
  The body of the \<^verbatim>\<open>try\<close> of \<open>read_backup_order\<close>, on the text of the file.
  \<^verbatim>\<open>line.strip().split("=", 1)[1]\<close> is what follows the first \<^verbatim>\<open>=\<close> of the stripped line.
\<close>

definition read_backup_lines :: "env \<Rightarrow> string \<Rightarrow> string \<Rightarrow> exn + string list" where
  "read_backup_lines E path text =
     (case read_raises E path of
        Some e \<Rightarrow> Inl (OtherException e)
      | None \<Rightarrow>
          (case find (\<lambda>l. startswith (strip l) ''BootOrder='') (splitlines text) of
             None \<Rightarrow> Inl (BootOrderError ''BootOrder= Zeile im Backup fehlt.'')
           | Some line \<Rightarrow>
               (let val = strip (drop 1 (dropWhile (\<lambda>c. c \<noteq> CHR ''='') (strip line)));
                    ids = map lower (split CHR '','' val)
                in if ids = [] \<or> list_ex (\<lambda>x. \<not> is_boot_id x) ids
                   then Inl (BootOrderError (''Ung'' @ ue @ ''ltige BootOrder im Backup: '' @ val))
                   else Inr ids)))"

definition read_backup_order :: "env \<Rightarrow> string \<Rightarrow> world \<Rightarrow> exn + string list" where
  "read_backup_order E path w =
     (case files w path of
        None \<Rightarrow> Inl (BootOrderError (''Backup-Datei nicht gefunden: '' @ path))
      | Some text \<Rightarrow>
          (case read_backup_lines E path text of
             Inr ids \<Rightarrow> Inr ids
           | Inl (BootOrderError e) \<Rightarrow>
               Inl (BootOrderError (''Backup konnte nicht gelesen werden: '' @ path @ '' ('' @ e @ '')''))
           | Inl (OtherException e) \<Rightarrow>
               Inl (BootOrderError (''Backup konnte nicht gelesen werden: '' @ path @ '' ('' @ e @ '')''))
           | Inl KeyboardInterrupt \<Rightarrow> Inl KeyboardInterrupt))"

definition validate_ids_exist :: "string list \<Rightarrow> dict \<Rightarrow> exn + unit" where
  "validate_ids_exist ids entries =
     (let missing = filter (\<lambda>x. \<not> dict_has entries x) ids
      in if missing \<noteq> []
         then Inl (BootOrderError (''Backup/Order enth'' @ ae @ ''lt unbekannte IDs (aktuell nicht vorhanden): ''
                                   @ join '', '' (map upper missing)))
         else Inr ())"

subsection \<open>main\<close>

text \<open>
  Step 3 of \<open>main\<close>. \<^verbatim>\<open>if args.id:\<close> holds for a value that is neither \<^verbatim>\<open>None\<close> nor the
  empty string; otherwise \<open>select_target_by_name\<close> is called with \<^verbatim>\<open>args.name\<close>, and its
  first statement \<^verbatim>\<open>name.lower()\<close> raises \<^verbatim>\<open>AttributeError\<close> when that is \<^verbatim>\<open>None\<close>.
\<close>

definition choose_target :: "args \<Rightarrow> dict \<Rightarrow> world \<Rightarrow> (exn + string) \<times> world" where
  "choose_target a entries w =
     (let by_name =
            (case name a of
               None \<Rightarrow> (Inl (OtherException (repr_str ''NoneType'' @ '' object has no attribute ''
                                              @ repr_str ''lower'')), w)
             | Some nm \<Rightarrow> select_target_by_name entries nm (exact a) w)
      in case id_arg a of
           None \<Rightarrow> by_name
         | Some i \<Rightarrow>
             (if i = [] then by_name
              else if \<not> is_boot_id i
              then (Inl (BootOrderError (''Ung'' @ ue @ ''ltige Ziel-ID: '' @ i)), w)
              else (case map_of entries i of
                      None \<Rightarrow> (Inl (BootOrderError (''Ziel-ID '' @ upper i @ '' existiert nicht.'')), w)
                    | Some desc \<Rightarrow>
                        (Inr i, logging INFO (''ID-Ziel gew'' @ ae @ ''hlt: '' @ upper i @ '' -> '' @ desc) w))))"

text \<open>Step 4: the new order.\<close>

definition new_order :: "string \<Rightarrow> string list \<Rightarrow> string list" where
  "new_order target_entry original_order =
     [target_entry] @ filter (\<lambda>x. x \<noteq> target_entry) original_order"

text \<open>The \<^verbatim>\<open>try\<close> body of \<open>main\<close> after the state is read: the log lines, steps 2 to 5.\<close>

definition after_read :: "env \<Rightarrow> args \<Rightarrow> string list \<Rightarrow> dict \<Rightarrow> world \<Rightarrow> (exn + unit) \<times> world" where
  "after_read E a original_order entries w0 =
     (let w1 = logging INFO (''Aktuelle BootOrder: '' @ join '', '' (map upper original_order)) w0;
          w2 = (if verbose a
                then logging DEBUG (''Eintr'' @ ae @ ''ge: ''
                                    @ join '', '' (map (\<lambda>(k, v). upper k @ '':'' @ v) entries)) w1
                else w1)
      in case write_backup E (backup a) original_order entries w2 of
           (Inl e, w3) \<Rightarrow> (Inl e, w3)
         | (Inr u, w3) \<Rightarrow>
             (case choose_target a entries w3 of
                (Inl e, w4) \<Rightarrow> (Inl e, w4)
              | (Inr target_entry, w4) \<Rightarrow>
                  (let order' = new_order target_entry original_order;
                       w5 = logging INFO (''Neue BootOrder: '' @ join '', '' (map upper order')) w4
                   in case set_boot_order E order' w5 of
                        (Inl e, w6) \<Rightarrow> (Inl e, w6)
                      | (Inr u', w6) \<Rightarrow>
                          (if \<not> no_prompt a
                           then (case keyboard E of
                                   Enter \<Rightarrow> (Inr (), w6)
                                 | EOF \<Rightarrow> (Inl (OtherException ''EOF when reading a line''), w6)
                                 | CtrlC \<Rightarrow> (Inl KeyboardInterrupt, w6))
                           else (Inr (), w6)))))"

text \<open>
  The whole \<^verbatim>\<open>try\<close> body. The second component is the local variable \<open>original_order\<close>:
  \<open>None\<close> as long as it is not assigned.
\<close>

definition try_body :: "env \<Rightarrow> args \<Rightarrow> world \<Rightarrow> (exn + unit) \<times> string list option \<times> world" where
  "try_body E a w =
     (case ensure_root E of
        Inl e \<Rightarrow> (Inl e, None, w)
      | Inr u \<Rightarrow>
          (case ensure_efibootmgr_available E of
             Inl e \<Rightarrow> (Inl e, None, w)
           | Inr u' \<Rightarrow>
               (case get_current_state E w of
                  (Inl e, w1) \<Rightarrow> (Inl e, None, w1)
                | (Inr (original_order, entries), w1) \<Rightarrow>
                    (case after_read E a original_order entries w1 of
                       (r, w2) \<Rightarrow> (r, Some original_order, w2)))))"

text \<open>
  The \<^verbatim>\<open>except\<close> clauses of the outer \<^verbatim>\<open>try\<close>: the exit that is in flight when the
  \<^verbatim>\<open>finally\<close> block starts (\<open>None\<close> when the body ended normally).
\<close>

definition except_clauses :: "exn + unit \<Rightarrow> world \<Rightarrow> exit option \<times> world" where
  "except_clauses r w =
     (case r of
        Inr u \<Rightarrow> (None, w)
      | Inl (BootOrderError e) \<Rightarrow> (Some (Exit 1), logging ERROR (''Fehler: '' @ e) w)
      | Inl (OtherException e) \<Rightarrow> (Some (Exit 2), logging ERROR ''Unerwarteter Fehler aufgetreten.'' w)
      | Inl KeyboardInterrupt \<Rightarrow> (Some Killed_by_interrupt, w))"

text \<open>
  The \<^verbatim>\<open>try\<close> body inside \<^verbatim>\<open>finally\<close>. The test
  \<^verbatim>\<open>'original_order' in locals() and original_order\<close> holds for an assigned, non-empty list.
  The dash of the warning (U+2013) is outside the characters of the model and is written
  as a hyphen.
\<close>

definition restore_body :: "env \<Rightarrow> args \<Rightarrow> string list option \<Rightarrow> world \<Rightarrow> (exn + unit) \<times> world" where
  "restore_body E a original_order w =
     (case (if restore_from_backup a then
              (let w1 = logging INFO (''Stelle BootOrder aus Backup wieder her: '' @ backup a) w
               in case read_backup_order E (backup a) w1 of
                    Inl e \<Rightarrow> (Inl e, w1)
                  | Inr backup_order \<Rightarrow>
                      (case get_current_state E w1 of
                         (Inl e, w2) \<Rightarrow> (Inl e, w2)
                       | (Inr (order, current_entries), w2) \<Rightarrow>
                           (case validate_ids_exist backup_order current_entries of
                              Inl e \<Rightarrow> (Inl e, w2)
                            | Inr u \<Rightarrow> set_boot_order E backup_order w2)))
            else
              (case original_order of
                 None \<Rightarrow>
                   (Inr (), logging WARNING (''Originalzustand unbekannt - keine Wiederherstellung m''
                                             @ oe @ ''glich.'') w)
               | Some order \<Rightarrow>
                   (if order \<noteq> []
                    then set_boot_order E order
                           (logging INFO (''Stelle urspr'' @ ue @ ''ngliche BootOrder wieder her...'') w)
                    else (Inr (), logging WARNING (''Originalzustand unbekannt - keine Wiederherstellung m''
                                                   @ oe @ ''glich.'') w)))) of
        (Inl e, w') \<Rightarrow> (Inl e, w')
      | (Inr u, w') \<Rightarrow> (Inr (), logging INFO ''Wiederherstellung abgeschlossen.'' w'))"

text \<open>
  The \<^verbatim>\<open>finally\<close> block: the body above under its two \<^verbatim>\<open>except\<close> clauses. The result is the
  exception that leaves the block, if any.
\<close>

definition finally_block :: "env \<Rightarrow> args \<Rightarrow> string list option \<Rightarrow> world \<Rightarrow> exn option \<times> world" where
  "finally_block E a original_order w =
     (case restore_body E a original_order w of
        (Inr u, w') \<Rightarrow> (None, w')
      | (Inl (BootOrderError e), w') \<Rightarrow>
          (None, logging ERROR (''Wiederherstellung fehlgeschlagen: '' @ e) w')
      | (Inl (OtherException e), w') \<Rightarrow>
          (None, logging ERROR ''Unerwarteter Fehler bei der Wiederherstellung.'' w')
      | (Inl KeyboardInterrupt, w') \<Rightarrow> (Some KeyboardInterrupt, w'))"

text \<open>
  \<open>main\<close>: the logging level is set up, then the \<^verbatim>\<open>try\<close> statement runs. An exception
  that leaves the \<^verbatim>\<open>finally\<close> block replaces the exit in flight; otherwise the exit in
  flight goes on, and with none the process ends with status 0.
\<close>

definition verbose_setup :: "args \<Rightarrow> world \<Rightarrow> world" where
  "verbose_setup a w0 = (if verbose a then logging DEBUG ''Verbose-Modus aktiv (DEBUG).'' w0 else w0)"

definition main :: "env \<Rightarrow> args \<Rightarrow> world \<Rightarrow> exit \<times> world" where
  "main E a w0 =
     (case try_body E a (verbose_setup a w0) of
        (r, original_order, w2) \<Rightarrow>
          (case except_clauses r w2 of
             (in_flight, w3) \<Rightarrow>
               (case finally_block E a original_order w3 of
                  (Some e, w4) \<Rightarrow> (Killed_by_interrupt, w4)
                | (None, w4) \<Rightarrow>
                    (case in_flight of None \<Rightarrow> (Exit 0, w4) | Some x \<Rightarrow> (x, w4)))))"

section \<open>Notions of the specification and example data\<close>

text \<open>
  A description matches a query without regard to case: it contains the query as a contiguous
  run, or with exact matching equals it, after both are lower-cased.
\<close>

definition ci_match :: "string \<Rightarrow> bool \<Rightarrow> string \<Rightarrow> bool" where
  "ci_match nm ex desc \<longleftrightarrow>
     (if ex then lower desc = lower nm else (\<exists>pre post. lower desc = pre @ lower nm @ post))"

text \<open>The entries and the empty world of the examples.\<close>

definition example_entries :: dict where
  "example_entries = [(''0001'', ''Windows''), (''0002'', ''Ubuntu''), (''0003'', ''Debian'')]"

definition world0 :: world where
  "world0 = \<lparr>calls = [], files = Map.empty, logged = []\<rparr>"

text \<open>
  The output of the tool in the examples: three entries in the order 0001, 0002, 0003; and an
  output whose order names an id that has no entry.
\<close>

definition example_output :: string where
  "example_output =
     ''BootOrder: 0001,0002,0003'' @ [CHR 0x0A] @ ''Boot0001 Windows'' @ [CHR 0x0A]
     @ ''Boot0002 Ubuntu'' @ [CHR 0x0A] @ ''Boot0003 Debian'' @ [CHR 0x0A]"

definition torn_output :: string where
  "torn_output = ''BootOrder: 0001,0005'' @ [CHR 0x0A] @ ''Boot0001* Windows'' @ [CHR 0x0A]"

text \<open>Surroundings in which nothing fails, and the command line \<^verbatim>\<open>--name ubuntu --no-prompt\<close>.\<close>

definition example_env :: env where
  "example_env =
     \<lparr>sys_has_getuid = False, sys_getuid = 0, which_efibootmgr = True,
      tool = (\<lambda>history as. Completed 0 example_output),
      write_raises = (\<lambda>path. None), read_raises = (\<lambda>path. None),
      now_isoformat = ''2024-05-01T10:00:00.000001'', keyboard = Enter\<rparr>"

definition example_args :: args where
  "example_args =
     \<lparr>name = Some ''ubuntu'', id_arg = None, exact = False, backup = ''/var/backups/bootorder.txt'',
      restore_from_backup = False, no_prompt = True, verbose = False\<rparr>"

text \<open>
  The pieces of one run of \<open>main\<close>: the primary flow (the \<^verbatim>\<open>try\<close> body), the exit it
  determines, what the body of the restore step returns or raises, and the exception that
  leaves the restore step, if any.
\<close>

definition primary_flow :: "env \<Rightarrow> args \<Rightarrow> world \<Rightarrow> (exn + unit) \<times> string list option \<times> world" where
  "primary_flow E a w0 = try_body E a (verbose_setup a w0)"

definition primary_exit :: "exn + unit \<Rightarrow> exit" where
  "primary_exit r =
     (case r of Inr u \<Rightarrow> Exit 0
              | Inl (BootOrderError x) \<Rightarrow> Exit 1
              | Inl (OtherException x) \<Rightarrow> Exit 2
              | Inl KeyboardInterrupt \<Rightarrow> Killed_by_interrupt)"

definition restore_result :: "env \<Rightarrow> args \<Rightarrow> world \<Rightarrow> exn + unit" where
  "restore_result E a w0 =
     (case primary_flow E a w0 of
        (r, snapshot, w2) \<Rightarrow> fst (restore_body E a snapshot (snd (except_clauses r w2))))"

definition restore_propagates :: "env \<Rightarrow> args \<Rightarrow> world \<Rightarrow> exn option" where
  "restore_propagates E a w0 =
     (case primary_flow E a w0 of
        (r, snapshot, w2) \<Rightarrow> fst (finally_block E a snapshot (snd (except_clauses r w2))))"

text \<open>
  Surroundings in which the tool answers its first \<open>n\<close> calls with the example output and does
  \<open>p\<close> on every later call.
\<close>

definition failing_restore_env :: "nat \<Rightarrow> proc \<Rightarrow> env" where
  "failing_restore_env n p =
     example_env\<lparr>tool := (\<lambda>history as. if length history < n then Completed 0 example_output else p)\<rparr>"

text \<open>
  A world in which a backup file of an earlier run is at the default path, the output of the
  tool for two entries in the order 0001, 0002, and surroundings that give this output.
\<close>

definition stale_world :: "string \<Rightarrow> world" where
  "stale_world order_line =
     \<lparr>calls = [],
      files = [''/var/backups/bootorder.txt'' \<mapsto>
                 ''# Backup'' @ [CHR 0x0A] @ order_line @ [CHR 0x0A]
                 @ ''BootEntry 0001=Windows'' @ [CHR 0x0A]],
      logged = []\<rparr>"

definition two_entries_output :: string where
  "two_entries_output =
     ''BootOrder: 0001,0002'' @ [CHR 0x0A] @ ''Boot0001* Windows'' @ [CHR 0x0A]
     @ ''Boot0002* Ubuntu'' @ [CHR 0x0A]"

definition two_entries_env :: env where
  "two_entries_env = example_env\<lparr>tool := (\<lambda>history as. Completed 0 two_entries_output)\<rparr>"

text \<open>Surroundings in which the backup file cannot be opened for writing.\<close>

definition read_only_env :: env where
  "read_only_env =
     two_entries_env\<lparr>write_raises := (\<lambda>path. Some (''[Errno 30] Read-only file system'', None))\<rparr>"

text \<open>
  A call of the tool is well-formed when it is the query (no arguments) or \<^verbatim>\<open>-o\<close> with a
  non-empty order of well-formed ids, upper-cased and joined by commas. A world extends another
  when its calls are those of the other followed by well-formed calls.
\<close>

definition well_formed_call :: "string list \<Rightarrow> bool" where
  "well_formed_call c \<longleftrightarrow>
     c = [] \<or> (\<exists>order. order \<noteq> [] \<and> list_all is_boot_id order
                  \<and> c = [''-o'', join '','' (map upper order)])"

definition calls_extended :: "world \<Rightarrow> world \<Rightarrow> bool" where
  "calls_extended w w' \<longleftrightarrow> (\<exists>cs. calls w' = calls w @ cs \<and> list_all well_formed_call cs)"


section \<open>Auxiliary facts\<close>

lemma startswith_iff: "startswith s p \<longleftrightarrow> (\<exists>post. s = p @ post)"
  unfolding startswith_def
  by (metis append_eq_conv_conj append_take_drop_id)

lemma contains_iff: "contains s sub \<longleftrightarrow> (\<exists>pre post. s = pre @ sub @ post)"
proof (induction s)
  case Nil
  then show ?case by simp
next
  case (Cons c cs)
  show ?case
  proof
    assume "contains (c # cs) sub"
    then consider "startswith (c # cs) sub" | "contains cs sub" by auto
    then show "\<exists>pre post. c # cs = pre @ sub @ post"
    proof cases
      case 1
      then obtain post where "c # cs = sub @ post" by (auto simp: startswith_iff)
      then have "c # cs = [] @ sub @ post" by simp
      then show ?thesis by blast
    next
      case 2
      with Cons.IH obtain pre post where "cs = pre @ sub @ post" by blast
      then have "c # cs = (c # pre) @ sub @ post" by simp
      then show ?thesis by blast
    qed
  next
    assume "\<exists>pre post. c # cs = pre @ sub @ post"
    then obtain pre post where eq: "c # cs = pre @ sub @ post" by blast
    show "contains (c # cs) sub"
    proof (cases pre)
      case Nil
      with eq have "startswith (c # cs) sub" by (auto simp: startswith_iff)
      then show ?thesis by simp
    next
      case (Cons d ds)
      with eq have "cs = ds @ sub @ post" by simp
      with Cons.IH have "contains cs sub" by blast
      then show ?thesis by simp
    qed
  qed
qed

lemma ci_match_code [code]:
  "ci_match nm ex desc \<longleftrightarrow>
     (if ex then lower desc = lower nm else contains (lower desc) (lower nm))"
  by (simp only: ci_match_def contains_iff)

lemma matches_filter:
  "filter (\<lambda>(bid, desc). if ex then lower desc = lower nm else contains (lower desc) (lower nm)) entries
   = filter (\<lambda>p. ci_match nm ex (snd p)) entries"
proof (rule filter_cong)
  fix p assume "p \<in> set entries"
  show "(case p of (bid, desc) \<Rightarrow> if ex then lower desc = lower nm else contains (lower desc) (lower nm))
        = ci_match nm ex (snd p)"
    by (cases p) (simp only: ci_match_code snd_conv prod.case)
qed simp

lemma filter_single:
  assumes "distinct xs" "x \<in> set xs" "P x" "\<And>y. y \<in> set xs \<Longrightarrow> P y \<Longrightarrow> y = x"
  shows "filter P xs = [x]"
proof -
  from assms(2) obtain ys zs where xs: "xs = ys @ x # zs"
    by (auto dest: split_list)
  from assms(1) xs have nx: "x \<notin> set ys" "x \<notin> set zs" by simp_all
  have "filter P ys = []"
  proof (rule ccontr)
    assume "filter P ys \<noteq> []"
    then obtain y where "y \<in> set ys" "P y" by (auto simp: filter_empty_conv)
    with assms(4)[of y] xs nx show False by auto
  qed
  moreover have "filter P zs = []"
  proof (rule ccontr)
    assume "filter P zs \<noteq> []"
    then obtain y where "y \<in> set zs" "P y" by (auto simp: filter_empty_conv)
    with assms(4)[of y] xs nx show False by auto
  qed
  ultimately show ?thesis using xs assms(3) by simp
qed

lemma filter_two:
  assumes "p \<in> set xs" "q \<in> set xs" "p \<noteq> q" "P p" "P q"
  shows "length (filter P xs) > 1"
proof -
  have "{p, q} \<subseteq> set (filter P xs)" using assms by simp
  then have "card {p, q} \<le> card (set (filter P xs))" by (intro card_mono) auto
  also have "\<dots> \<le> length (filter P xs)" by (rule card_length)
  finally show ?thesis using assms(3) by simp
qed

lemma calls_logging [simp]: "calls (logging l m w) = calls w"
  by (simp add: logging_def)

lemma files_logging [simp]: "files (logging l m w) = files w"
  by (simp add: logging_def)

lemma logged_logging [simp]: "logged (logging l m w) = logged w @ [(l, m)]"
  by (simp add: logging_def)

lemma run_efibootmgr_world: "snd (run_efibootmgr E as w) = w\<lparr>calls := calls w @ [as]\<rparr>"
  by (simp add: run_efibootmgr_def Let_def split: proc.splits)

lemma run_efibootmgr_result:
  "calls w = calls w' \<Longrightarrow> fst (run_efibootmgr E as w) = fst (run_efibootmgr E as w')"
  by (simp add: run_efibootmgr_def Let_def split: proc.splits)

lemma get_current_state_world: "snd (get_current_state E w) = w\<lparr>calls := calls w @ [[]]\<rparr>"
proof -
  obtain r w' where rw: "run_efibootmgr E [] w = (r, w')" by (cases "run_efibootmgr E [] w")
  with run_efibootmgr_world[of E "[]" w] have w': "w' = w\<lparr>calls := calls w @ [[]]\<rparr>" by simp
  show ?thesis
    by (simp add: get_current_state_def rw w' Let_def split: sum.splits)
qed

lemma get_current_state_result:
  assumes "calls w = calls w'"
  shows "fst (get_current_state E w) = fst (get_current_state E w')"
proof -
  obtain r v where rw: "run_efibootmgr E [] w = (r, v)" by (cases "run_efibootmgr E [] w")
  obtain r' v' where rw': "run_efibootmgr E [] w' = (r', v')" by (cases "run_efibootmgr E [] w'")
  from run_efibootmgr_result[OF assms, of E "[]"] rw rw' have "r = r'" by simp
  then show ?thesis
    by (simp add: get_current_state_def rw rw' Let_def split: sum.splits)
qed

lemma parse_boot_order_valid:
  "parse_boot_order out = Inr order \<Longrightarrow> order \<noteq> [] \<and> \<not> list_ex (\<lambda>x. \<not> is_boot_id x) order"
  by (auto simp: parse_boot_order_def Let_def split: option.splits if_splits)

lemma get_current_state_valid:
  assumes "fst (get_current_state E w) = Inr (order, entries)"
  shows "order \<noteq> [] \<and> \<not> list_ex (\<lambda>x. \<not> is_boot_id x) order"
proof -
  obtain r w' where rw: "run_efibootmgr E [] w = (r, w')" by (cases "run_efibootmgr E [] w")
  from assms obtain out where "parse_boot_order out = Inr order"
    by (auto simp: get_current_state_def rw Let_def split: sum.splits if_splits)
  then show ?thesis by (rule parse_boot_order_valid)
qed

lemma set_boot_order_refuses:
  "order = [] \<or> list_ex (\<lambda>x. \<not> is_boot_id x) order \<Longrightarrow>
     \<exists>m. set_boot_order E order w = (Inl (BootOrderError m), w)"
  by (auto simp: set_boot_order_def)

lemma set_boot_order_world:
  assumes "order \<noteq> []" "\<not> list_ex (\<lambda>x. \<not> is_boot_id x) order"
  shows "snd (set_boot_order E order w) =
           (logging INFO (''Setze BootOrder: '' @ join '','' (map upper order)) w)
             \<lparr>calls := calls w @ [[''-o'', join '','' (map upper order)]]\<rparr>"
proof -
  let ?w1 = "logging INFO (''Setze BootOrder: '' @ join '','' (map upper order)) w"
  let ?as = "[''-o'', join '','' (map upper order)]"
  obtain r w' where rw: "run_efibootmgr E ?as ?w1 = (r, w')" by (cases "run_efibootmgr E ?as ?w1")
  with run_efibootmgr_world[of E ?as ?w1] have "w' = ?w1\<lparr>calls := calls w @ [?as]\<rparr>" by simp
  with assms rw show ?thesis
    by (simp add: set_boot_order_def Let_def split: sum.splits)
qed

lemma write_backup_calls: "calls (snd (write_backup E path order entries w)) = calls w"
  by (simp add: write_backup_def split: option.splits prod.splits)

lemma select_target_by_name_calls: "calls (snd (select_target_by_name entries nm ex w)) = calls w"
  by (simp add: select_target_by_name_def Let_def)

lemma choose_target_calls: "calls (snd (choose_target a entries w)) = calls w"
  by (simp add: choose_target_def Let_def select_target_by_name_calls split: option.splits)

lemma except_clauses_calls: "calls (snd (except_clauses r w)) = calls w"
  by (simp add: except_clauses_def split: sum.splits exn.splits)

lemma verbose_setup_calls [simp]: "calls (verbose_setup a w) = calls w"
  by (simp add: verbose_setup_def)

lemma read_backup_order_files:
  "files w = files w' \<Longrightarrow> read_backup_order E path w = read_backup_order E path w'"
  by (simp add: read_backup_order_def)

lemma read_backup_order_valid:
  assumes "read_backup_order E path w = Inr ids"
  shows "ids \<noteq> [] \<and> \<not> list_ex (\<lambda>x. \<not> is_boot_id x) ids"
proof -
  from assms obtain content where "read_backup_lines E path content = Inr ids"
    by (auto simp: read_backup_order_def split: option.splits sum.splits exn.splits)
  then show ?thesis
    by (auto simp: read_backup_lines_def Let_def split: option.splits if_splits)
qed

lemma main_unfold:
  assumes "try_body E a (verbose_setup a w0) = (r, snap, w2)"
      and "except_clauses r w2 = (in_flight, w3)"
      and "finally_block E a snap w3 = (x, w4)"
  shows "main E a w0 =
           ((case x of Some e \<Rightarrow> Killed_by_interrupt
                     | None \<Rightarrow> (case in_flight of None \<Rightarrow> Exit 0 | Some y \<Rightarrow> y)), w4)"
  using assms by (simp add: main_def split: option.splits)

text \<open>The restore step without a backup file, with a snapshot.\<close>

lemma finally_block_original:
  assumes "\<not> restore_from_backup a" "order \<noteq> []" "\<not> list_ex (\<lambda>x. \<not> is_boot_id x) order"
  shows "calls (snd (finally_block E a (Some order) w)) = calls w @ [[''-o'', join '','' (map upper order)]]"
    and "(INFO, ''Stelle urspr'' @ ue @ ''ngliche BootOrder wieder her...'')
           \<in> set (logged (snd (finally_block E a (Some order) w)))"
proof -
  let ?w1 = "logging INFO (''Stelle urspr'' @ ue @ ''ngliche BootOrder wieder her...'') w"
  obtain r w2 where sb: "set_boot_order E order ?w1 = (r, w2)" by (cases "set_boot_order E order ?w1")
  from set_boot_order_world[OF assms(2,3), of E ?w1] sb
  have w2: "w2 = (logging INFO (''Setze BootOrder: '' @ join '','' (map upper order)) ?w1)
                   \<lparr>calls := calls w @ [[''-o'', join '','' (map upper order)]]\<rparr>"
    by simp
  have rb: "restore_body E a (Some order) w =
              (case r of Inl e \<Rightarrow> (Inl e, w2)
                       | Inr u \<Rightarrow> (Inr (), logging INFO ''Wiederherstellung abgeschlossen.'' w2))"
    using assms(1,2) sb by (simp add: restore_body_def split: sum.splits)
  show "calls (snd (finally_block E a (Some order) w)) = calls w @ [[''-o'', join '','' (map upper order)]]"
    by (simp add: finally_block_def rb w2 split: sum.splits exn.splits)
  show "(INFO, ''Stelle urspr'' @ ue @ ''ngliche BootOrder wieder her...'')
           \<in> set (logged (snd (finally_block E a (Some order) w)))"
    by (simp add: finally_block_def rb w2 split: sum.splits exn.splits)
qed

text \<open>The restore step without a backup file and without a snapshot.\<close>

lemma finally_block_unknown:
  assumes "\<not> restore_from_backup a"
  shows "finally_block E a None w =
           (None, logging INFO ''Wiederherstellung abgeschlossen.''
                    (logging WARNING (''Originalzustand unbekannt - keine Wiederherstellung m''
                                      @ oe @ ''glich.'') w))"
  using assms by (simp add: finally_block_def restore_body_def)

lemma try_body_snapshot:
  assumes "ensure_root E = Inr ()" "ensure_efibootmgr_available E = Inr ()"
      and "fst (get_current_state E w) = Inr (order, entries)"
  shows "fst (snd (try_body E a w)) = Some order"
proof -
  obtain r w1 where g: "get_current_state E w = (r, w1)" by (cases "get_current_state E w")
  with assms(3) have r: "r = Inr (order, entries)" by simp
  show ?thesis
    by (simp add: try_body_def assms(1,2) g r split: prod.splits)
qed

lemma try_body_no_snapshot:
  assumes "ensure_root E = Inl e \<or> ensure_efibootmgr_available E = Inl e
           \<or> fst (get_current_state E w) = Inl e"
  shows "fst (snd (try_body E a w)) = None"
    and "calls (snd (snd (try_body E a w))) = calls w \<or> calls (snd (snd (try_body E a w))) = calls w @ [[]]"
proof -
  obtain r w1 where g: "get_current_state E w = (r, w1)" by (cases "get_current_state E w")
  from get_current_state_world[of E w] g have w1: "calls w1 = calls w @ [[]]" by simp
  from assms g have c: "ensure_root E = Inl e \<or> ensure_efibootmgr_available E = Inl e \<or> r = Inl e"
    by simp
  then show "fst (snd (try_body E a w)) = None"
    by (auto simp: try_body_def g split: sum.splits)
  from c w1 show "calls (snd (snd (try_body E a w))) = calls w \<or> calls (snd (snd (try_body E a w))) = calls w @ [[]]"
    by (auto simp: try_body_def g split: sum.splits)
qed

lemma finally_block_backup_logged:
  assumes "restore_from_backup a"
  shows "(INFO, ''Stelle BootOrder aus Backup wieder her: '' @ backup a)
           \<in> set (logged (snd (finally_block E a snap w)))"
proof -
  let ?w1 = "logging INFO (''Stelle BootOrder aus Backup wieder her: '' @ backup a) w"
  have keep: "(INFO, ''Stelle BootOrder aus Backup wieder her: '' @ backup a) \<in> set (logged v)"
    if "\<exists>ls. logged v = logged ?w1 @ ls" for v
    using that by auto
  obtain g w2 where gs: "get_current_state E ?w1 = (g, w2)" by (cases "get_current_state E ?w1")
  from get_current_state_world[of E ?w1] gs have w2: "logged w2 = logged ?w1" by simp
  have sbo: "\<exists>ls. logged (snd (set_boot_order E ids w2)) = logged ?w1 @ ls" for ids
  proof (cases "ids = [] \<or> list_ex (\<lambda>x. \<not> is_boot_id x) ids")
    case True
    from set_boot_order_refuses[OF this, of E w2] w2 show ?thesis by auto
  next
    case False
    then show ?thesis by (simp add: set_boot_order_world w2)
  qed
  have "\<exists>ls. logged (snd (restore_body E a snap w)) = logged ?w1 @ ls"
  proof (cases "read_backup_order E (backup a) ?w1")
    case (Inl e)
    then show ?thesis using assms by (simp add: restore_body_def)
  next
    case (Inr ids)
    show ?thesis
    proof (cases g)
      case (Inl e)
      with Inr gs w2 assms show ?thesis by (simp add: restore_body_def)
    next
      case g: (Inr p)
      obtain order entries where oe: "p = (order, entries)" by (cases p)
      show ?thesis
      proof (cases "validate_ids_exist ids entries")
        case (Inl e)
        with Inr gs g oe w2 assms show ?thesis by (simp add: restore_body_def)
      next
        case v: (Inr u)
        obtain r w3 where s: "set_boot_order E ids w2 = (r, w3)" by (cases "set_boot_order E ids w2")
        from sbo[of ids] s obtain ls where "logged w3 = logged ?w1 @ ls" by auto
        with Inr gs g oe v s assms show ?thesis
          by (cases r) (simp_all add: restore_body_def)
      qed
    qed
  qed
  then obtain ls where ls: "logged (snd (restore_body E a snap w)) = logged ?w1 @ ls" by blast
  obtain r v where rb: "restore_body E a snap w = (r, v)" by (cases "restore_body E a snap w")
  with ls have "logged v = logged ?w1 @ ls" by simp
  then have "\<exists>ls. logged (snd (finally_block E a snap w)) = logged ?w1 @ ls"
    by (simp add: finally_block_def rb split: sum.splits exn.splits)
  then show ?thesis by (rule keep)
qed

lemma after_read_write_fails:
  assumes "write_raises E (backup a) = Some (m, left)"
  shows "fst (after_read E a order entries w) =
           Inl (BootOrderError (''Backup konnte nicht geschrieben werden: '' @ backup a @ '' ('' @ m @ '')''))"
    and "calls (snd (after_read E a order entries w)) = calls w"
    and "files (snd (after_read E a order entries w)) =
           files (snd (write_backup E (backup a) order entries w))"
  using assms
  by (simp_all add: after_read_def write_backup_def Let_def split: option.splits)

lemma finally_block_backup_calls:
  assumes "restore_from_backup a"
  shows "calls (snd (finally_block E a snap w)) = calls w
         \<or> calls (snd (finally_block E a snap w)) = calls w @ [[]]
         \<or> (\<exists>ids. read_backup_order E (backup a) w = Inr ids
                \<and> calls (snd (finally_block E a snap w)) = calls w @ [[], [''-o'', join '','' (map upper ids)]])"
proof -
  let ?w1 = "logging INFO (''Stelle BootOrder aus Backup wieder her: '' @ backup a) w"
  have rd: "read_backup_order E (backup a) ?w1 = read_backup_order E (backup a) w"
    by (rule read_backup_order_files) simp
  obtain g w2 where gs: "get_current_state E ?w1 = (g, w2)" by (cases "get_current_state E ?w1")
  from get_current_state_world[of E ?w1] gs have w2: "calls w2 = calls w @ [[]]" by simp
  have fin: "calls (snd (finally_block E a snap w)) = calls v"
    if "snd (restore_body E a snap w) = v \<or> snd (restore_body E a snap w) = logging INFO ''Wiederherstellung abgeschlossen.'' v" for v
    using that
    by (cases "restore_body E a snap w")
       (auto simp: finally_block_def split: sum.splits exn.splits)
  show ?thesis
  proof (cases "read_backup_order E (backup a) w")
    case (Inl e)
    with rd assms have "snd (restore_body E a snap w) = ?w1" by (simp add: restore_body_def)
    from fin[of ?w1] this show ?thesis by simp
  next
    case (Inr ids)
    show ?thesis
    proof (cases g)
      case (Inl e)
      with Inr rd gs assms have "snd (restore_body E a snap w) = w2" by (simp add: restore_body_def)
      from fin[of w2] this w2 show ?thesis by simp
    next
      case g: (Inr p)
      obtain order entries where p: "p = (order, entries)" by (cases p)
      show ?thesis
      proof (cases "validate_ids_exist ids entries")
        case (Inl e)
        with Inr rd gs g p assms have "snd (restore_body E a snap w) = w2" by (simp add: restore_body_def)
        from fin[of w2] this w2 show ?thesis by simp
      next
        case v: (Inr u)
        obtain r w3 where s: "set_boot_order E ids w2 = (r, w3)" by (cases "set_boot_order E ids w2")
        from read_backup_order_valid[OF Inr] have ok: "ids \<noteq> []" "\<not> list_ex (\<lambda>x. \<not> is_boot_id x) ids"
          by simp_all
        from set_boot_order_world[OF ok, of E w2] s w2
        have w3: "calls w3 = calls w @ [[], [''-o'', join '','' (map upper ids)]]" by simp
        from Inr rd gs g p v s assms
        have "snd (restore_body E a snap w) = w3
              \<or> snd (restore_body E a snap w) = logging INFO ''Wiederherstellung abgeschlossen.'' w3"
          by (cases r) (simp_all add: restore_body_def)
        from fin[OF this] w3 Inr show ?thesis by simp
      qed
    qed
  qed
qed

lemma calls_extended_same: "calls w' = calls w \<Longrightarrow> calls_extended w w'"
  by (simp add: calls_extended_def)

lemma calls_extended_trans:
  "calls_extended w w' \<Longrightarrow> calls_extended w' w'' \<Longrightarrow> calls_extended w w''"
  by (auto simp: calls_extended_def)

lemma calls_extended_logging: "calls_extended w w' \<Longrightarrow> calls_extended w (logging l m w')"
  by (simp add: calls_extended_def)

lemma get_current_state_extends: "calls_extended w (snd (get_current_state E w))"
  by (simp add: calls_extended_def get_current_state_world well_formed_call_def)

lemma set_boot_order_extends: "calls_extended w (snd (set_boot_order E order w))"
proof (cases "order = [] \<or> list_ex (\<lambda>x. \<not> is_boot_id x) order")
  case True
  from set_boot_order_refuses[OF this, of E w] show ?thesis
    by (auto simp: calls_extended_def)
next
  case False
  then have "list_all is_boot_id order" by (simp add: list_all_iff list_ex_iff)
  with False have "well_formed_call [''-o'', join '','' (map upper order)]"
    unfolding well_formed_call_def by blast
  with False show ?thesis
    by (simp add: calls_extended_def set_boot_order_world)
qed

lemma after_read_unfold:
  "\<exists>w2. calls w2 = calls w \<and>
     after_read E a order entries w =
       (case write_backup E (backup a) order entries w2 of
          (Inl e, w3) \<Rightarrow> (Inl e, w3)
        | (Inr u, w3) \<Rightarrow>
            (case choose_target a entries w3 of
               (Inl e, w4) \<Rightarrow> (Inl e, w4)
             | (Inr t, w4) \<Rightarrow>
                 (let order' = new_order t order;
                      w5 = logging INFO (''Neue BootOrder: '' @ join '', '' (map upper order')) w4
                  in case set_boot_order E order' w5 of
                    (Inl e, w6) \<Rightarrow> (Inl e, w6)
                  | (Inr u', w6) \<Rightarrow>
                      (if \<not> no_prompt a
                       then (case keyboard E of
                               Enter \<Rightarrow> (Inr (), w6)
                             | EOF \<Rightarrow> (Inl (OtherException ''EOF when reading a line''), w6)
                             | CtrlC \<Rightarrow> (Inl KeyboardInterrupt, w6))
                       else (Inr (), w6)))))"
  by (rule exI[of _ "if verbose a
             then logging DEBUG (''Eintr'' @ ae @ ''ge: ''
                                 @ join '', '' (map (\<lambda>(k, v). upper k @ '':'' @ v) entries))
                    (logging INFO (''Aktuelle BootOrder: '' @ join '', '' (map upper order)) w)
             else logging INFO (''Aktuelle BootOrder: '' @ join '', '' (map upper order)) w"])
     (simp add: after_read_def Let_def)

lemma after_read_extends: "calls_extended w (snd (after_read E a order entries w))"
proof -
  from after_read_unfold[of w E a order entries] obtain w2 where c2: "calls w2 = calls w"
    and eq: "after_read E a order entries w =
       (case write_backup E (backup a) order entries w2 of
          (Inl e, w3) \<Rightarrow> (Inl e, w3)
        | (Inr u, w3) \<Rightarrow>
            (case choose_target a entries w3 of
               (Inl e, w4) \<Rightarrow> (Inl e, w4)
             | (Inr t, w4) \<Rightarrow>
                 (let order' = new_order t order;
                      w5 = logging INFO (''Neue BootOrder: '' @ join '', '' (map upper order')) w4
                  in case set_boot_order E order' w5 of
                    (Inl e, w6) \<Rightarrow> (Inl e, w6)
                  | (Inr u', w6) \<Rightarrow>
                      (if \<not> no_prompt a
                       then (case keyboard E of
                               Enter \<Rightarrow> (Inr (), w6)
                             | EOF \<Rightarrow> (Inl (OtherException ''EOF when reading a line''), w6)
                             | CtrlC \<Rightarrow> (Inl KeyboardInterrupt, w6))
                       else (Inr (), w6)))))"
    by blast
  obtain rb w3 where wb: "write_backup E (backup a) order entries w2 = (rb, w3)"
    by (cases "write_backup E (backup a) order entries w2")
  from write_backup_calls[of E "backup a" order entries w2] wb c2 have c3: "calls w3 = calls w" by simp
  obtain rt w4 where ct: "choose_target a entries w3 = (rt, w4)" by (cases "choose_target a entries w3")
  from choose_target_calls[of a entries w3] ct c3 have c4: "calls w4 = calls w" by simp
  show ?thesis
  proof (cases rb)
    case (Inl e)
    with wb c3 show ?thesis by (simp add: eq calls_extended_same)
  next
    case rb: (Inr u)
    show ?thesis
    proof (cases rt)
      case (Inl e)
      with wb rb ct c4 show ?thesis by (simp add: eq calls_extended_same)
    next
      case rt: (Inr t)
      define w5 where "w5 = logging INFO (''Neue BootOrder: '' @ join '', '' (map upper (new_order t order))) w4"
      obtain rs w6 where sb: "set_boot_order E (new_order t order) w5 = (rs, w6)"
        by (cases "set_boot_order E (new_order t order) w5")
      have c5: "calls w5 = calls w" by (simp add: w5_def c4)
      from set_boot_order_extends[of w5 E "new_order t order"] sb c5
      have e6: "calls_extended w w6" by (simp add: calls_extended_def)
      from wb rb ct rt sb have "snd (after_read E a order entries w) = w6"
        unfolding eq
        by (simp add: Let_def w5_def split: sum.splits keyboard.splits)
      with e6 show ?thesis by simp
    qed
  qed
qed

lemma try_body_extends: "calls_extended w (snd (snd (try_body E a w)))"
proof -
  obtain g w1 where gs: "get_current_state E w = (g, w1)" by (cases "get_current_state E w")
  from get_current_state_extends[of w E] gs have e1: "calls_extended w w1" by simp
  have same: "calls_extended w w" by (simp add: calls_extended_same)
  show ?thesis
  proof (cases g)
    case (Inl e)
    with gs e1 same show ?thesis by (simp add: try_body_def split: sum.splits)
  next
    case (Inr p)
    obtain order entries where p: "p = (order, entries)" by (cases p)
    obtain ra w2 where ar: "after_read E a order entries w1 = (ra, w2)"
      by (cases "after_read E a order entries w1")
    from after_read_extends[of w1 E a order entries] ar have "calls_extended w1 w2" by simp
    with e1 have "calls_extended w w2" by (rule calls_extended_trans)
    with Inr p gs ar same show ?thesis
      by (simp add: try_body_def split: sum.splits)
  qed
qed

lemma restore_body_extends: "calls_extended w (snd (restore_body E a snap w))"
proof -
  have fin: "calls_extended w (snd (restore_body E a snap w))"
    if "calls_extended w v"
      and "snd (restore_body E a snap w) = v
           \<or> snd (restore_body E a snap w) = logging INFO ''Wiederherstellung abgeschlossen.'' v" for v
    using that by (auto simp: calls_extended_logging)
  show ?thesis
  proof (cases "restore_from_backup a")
    case False
    show ?thesis
    proof (cases "snap = None \<or> snap = Some []")
      case True
      with False show ?thesis
        by (auto simp: restore_body_def calls_extended_def)
    next
      case nonempty: False
      then obtain order where snap: "snap = Some order" "order \<noteq> []" by (cases snap) auto
      let ?w1 = "logging INFO (''Stelle urspr'' @ ue @ ''ngliche BootOrder wieder her...'') w"
      obtain r w2 where s: "set_boot_order E order ?w1 = (r, w2)" by (cases "set_boot_order E order ?w1")
      from set_boot_order_extends[of ?w1 E order] s have e: "calls_extended w w2"
        by (simp add: calls_extended_def)
      from False snap s have "snd (restore_body E a snap w) = w2
           \<or> snd (restore_body E a snap w) = logging INFO ''Wiederherstellung abgeschlossen.'' w2"
        by (cases r) (simp_all add: restore_body_def)
      with e show ?thesis by (rule fin)
    qed
  next
    case True
    let ?w1 = "logging INFO (''Stelle BootOrder aus Backup wieder her: '' @ backup a) w"
    have e1: "calls_extended w ?w1" by (simp add: calls_extended_same)
    obtain g w2 where gs: "get_current_state E ?w1 = (g, w2)" by (cases "get_current_state E ?w1")
    from get_current_state_extends[of ?w1 E] gs have e2: "calls_extended w w2"
      by (simp add: calls_extended_def)
    show ?thesis
    proof (cases "read_backup_order E (backup a) ?w1")
      case (Inl e)
      with True have "snd (restore_body E a snap w) = ?w1" by (simp add: restore_body_def)
      with e1 show ?thesis by simp
    next
      case (Inr ids)
      show ?thesis
      proof (cases g)
        case (Inl e)
        with Inr gs True have "snd (restore_body E a snap w) = w2" by (simp add: restore_body_def)
        with e2 show ?thesis by simp
      next
        case g: (Inr p)
        obtain order entries where p: "p = (order, entries)" by (cases p)
        show ?thesis
        proof (cases "validate_ids_exist ids entries")
          case (Inl e)
          with Inr gs g p True have "snd (restore_body E a snap w) = w2" by (simp add: restore_body_def)
          with e2 show ?thesis by simp
        next
          case v: (Inr u)
          obtain r w3 where s: "set_boot_order E ids w2 = (r, w3)" by (cases "set_boot_order E ids w2")
          from set_boot_order_extends[of w2 E ids] s have "calls_extended w2 w3" by simp
          with e2 have e3: "calls_extended w w3" by (rule calls_extended_trans)
          from Inr gs g p v s True
          have "snd (restore_body E a snap w) = w3
                \<or> snd (restore_body E a snap w) = logging INFO ''Wiederherstellung abgeschlossen.'' w3"
            by (cases r) (simp_all add: restore_body_def)
          with e3 show ?thesis by (rule fin)
        qed
      qed
    qed
  qed
qed

lemma finally_block_extends: "calls_extended w (snd (finally_block E a snap w))"
proof -
  obtain r v where rb: "restore_body E a snap w = (r, v)" by (cases "restore_body E a snap w")
  from restore_body_extends[of w E a snap] rb have "calls_extended w v" by simp
  then show ?thesis
    by (simp add: finally_block_def rb calls_extended_logging split: sum.splits exn.splits)
qed

lemma main_extends: "calls_extended w0 (snd (main E a w0))"
proof -
  obtain r snap w2 where tb: "try_body E a (verbose_setup a w0) = (r, snap, w2)"
    by (cases "try_body E a (verbose_setup a w0)")
  obtain in_flight w3 where ec: "except_clauses r w2 = (in_flight, w3)"
    by (cases "except_clauses r w2")
  obtain x w4 where fb: "finally_block E a snap w3 = (x, w4)"
    by (cases "finally_block E a snap w3")
  from main_unfold[OF tb ec fb] have m: "snd (main E a w0) = w4" by simp
  from try_body_extends[of "verbose_setup a w0" E a] tb have "calls_extended (verbose_setup a w0) w2" by simp
  then have e2: "calls_extended w0 w2" by (simp add: calls_extended_def)
  from except_clauses_calls[of r w2] ec have "calls w3 = calls w2" by simp
  with e2 have e3: "calls_extended w0 w3" by (simp add: calls_extended_def)
  from finally_block_extends[of w3 E a snap] fb have "calls_extended w3 w4" by simp
  with e3 have "calls_extended w0 w4" by (rule calls_extended_trans)
  with m show ?thesis by simp
qed

text \<open>A backup text without a line boundary is one line that starts with the header, so it does not read back.\<close>

lemma splitlines_one_line:
  "s \<noteq> [] \<Longrightarrow> list_all (\<lambda>c. \<not> is_linebreak c) s \<Longrightarrow> splitlines s = [s]"
proof (induction s)
  case Nil
  then show ?case by simp
next
  case (Cons c cs)
  then have nb: "\<not> is_linebreak c" and rest: "list_all (\<lambda>c. \<not> is_linebreak c) cs" by simp_all
  from nb have ncr: "c \<noteq> CHR 0x0D" by (auto simp: is_linebreak_def)
  show ?case
  proof (cases cs)
    case Nil
    with nb ncr show ?thesis by simp
  next
    case (Cons d ds)
    with Cons.IH rest have "splitlines cs = [cs]" by simp
    with nb ncr show ?thesis by simp
  qed
qed

lemma strip_keeps_head:
  assumes "\<not> is_space c"
  shows "\<exists>rest. strip (c # cs) = c # rest"
proof -
  have "dropWhile is_space (rev cs @ [c]) \<noteq> [] \<and> last (dropWhile is_space (rev cs @ [c])) = c"
    using assms by (induction "rev cs" arbitrary: cs) (auto simp: dropWhile_append)
  then obtain ys where "dropWhile is_space (rev cs @ [c]) = ys @ [c]"
    by (metis append_butlast_last_id)
  with assms show ?thesis by (simp add: strip_def)
qed

lemma written_backup_is_unreadable:
  assumes "write_raises E path = None"
      and "list_all (\<lambda>c. \<not> is_linebreak c) (backup_text (now_isoformat E) order entries)"
  shows "\<exists>m. read_backup_order E path (snd (write_backup E path order entries w)) = Inl (BootOrderError m)"
proof -
  let ?t = "backup_text (now_isoformat E) order entries"
  obtain rest where t: "?t = CHR ''#'' # rest" by (simp add: backup_text_def)
  have f: "files (snd (write_backup E path order entries w)) path = Some ?t"
    using assms(1) by (simp add: write_backup_def)
  from t assms(2) have one: "splitlines ?t = [?t]" by (intro splitlines_one_line) simp_all
  have "\<not> is_space CHR ''#''" by (simp add: is_space_def)
  from strip_keeps_head[OF this, of rest] t obtain r where "strip ?t = CHR ''#'' # r" by auto
  then have "\<not> startswith (strip ?t) ''BootOrder=''" by (simp add: startswith_def)
  with one have nf: "find (\<lambda>l. startswith (strip l) ''BootOrder='') (splitlines ?t) = None" by simp
  have "\<exists>m. read_backup_lines E path ?t = Inl (BootOrderError m) \<or> read_backup_lines E path ?t = Inl (OtherException m)"
    using nf by (simp add: read_backup_lines_def split: option.splits)
  then show ?thesis
    using f by (auto simp: read_backup_order_def)
qed


section \<open>The claims\<close>

text \<open>
  C4. For every target id and every original order the new order is the target followed by the
  original order with the target removed: the target is at position 0, and the ids other than
  the target stand in the new order exactly as they stand in the original one.
\<close>

theorem new_order_spec:
  "new_order t orig = t # removeAll t orig
   \<and> new_order t orig ! 0 = t
   \<and> filter (\<lambda>x. x \<noteq> t) (new_order t orig) = filter (\<lambda>x. x \<noteq> t) orig"
  by (induction orig) (auto simp: new_order_def)

text \<open>
  C6. \<open>select_target_by_name\<close> on the entries of a dictionary: if exactly one entry has a
  description that matches the query, the result is that entry's id; if none matches, it fails
  with a message that gives the query and the mode; if two different entries match, it fails
  with a message that lists the id and the description of every matching entry.
\<close>

theorem select_target_by_name_spec:
  "(distinct (map fst entries) \<and> (bid, desc) \<in> set entries \<and> ci_match nm ex desc
      \<and> (\<forall>p\<in>set entries. ci_match nm ex (snd p) \<longrightarrow> p = (bid, desc))
    \<longrightarrow> fst (select_target_by_name entries nm ex w) = Inr bid)
   \<and> ((\<forall>p\<in>set entries. \<not> ci_match nm ex (snd p))
    \<longrightarrow> select_target_by_name entries nm ex w =
          (Inl (BootOrderError (''Kein Eintrag gefunden f'' @ ue @ ''r Name='' @ [CHR 0x27] @ nm
                                @ [CHR 0x27] @ '' (exact='' @ str_bool ex @ '').'')), w))
   \<and> (p \<in> set entries \<and> q \<in> set entries \<and> p \<noteq> q \<and> ci_match nm ex (snd p) \<and> ci_match nm ex (snd q)
    \<longrightarrow> select_target_by_name entries nm ex w =
          (Inl (BootOrderError (''Mehrdeutig: mehrere Eintr'' @ ae @ ''ge gefunden: ''
                 @ join ''; '' (map (\<lambda>(bid, desc). upper bid @ '':'' @ desc)
                                   (filter (\<lambda>p. ci_match nm ex (snd p)) entries))
                 @ ''. Nutzen Sie --exact oder --id.'')), w))"
proof (intro conjI impI)
  assume h: "distinct (map fst entries) \<and> (bid, desc) \<in> set entries \<and> ci_match nm ex desc
      \<and> (\<forall>p\<in>set entries. ci_match nm ex (snd p) \<longrightarrow> p = (bid, desc))"
  then have "distinct entries" by (simp add: distinct_map)
  moreover from h have "(bid, desc) \<in> set entries" "ci_match nm ex (snd (bid, desc))" by simp_all
  moreover from h have "\<And>y. y \<in> set entries \<Longrightarrow> ci_match nm ex (snd y) \<Longrightarrow> y = (bid, desc)" by blast
  ultimately have "filter (\<lambda>p. ci_match nm ex (snd p)) entries = [(bid, desc)]"
    by (rule filter_single)
  then show "fst (select_target_by_name entries nm ex w) = Inr bid"
    by (simp add: select_target_by_name_def matches_filter Let_def)
next
  assume "\<forall>p\<in>set entries. \<not> ci_match nm ex (snd p)"
  then have "filter (\<lambda>p. ci_match nm ex (snd p)) entries = []"
    by (simp add: filter_empty_conv)
  then show "select_target_by_name entries nm ex w =
          (Inl (BootOrderError (''Kein Eintrag gefunden f'' @ ue @ ''r Name='' @ [CHR 0x27] @ nm
                                @ [CHR 0x27] @ '' (exact='' @ str_bool ex @ '').'')), w)"
    by (simp add: select_target_by_name_def matches_filter Let_def)
next
  assume h: "p \<in> set entries \<and> q \<in> set entries \<and> p \<noteq> q \<and> ci_match nm ex (snd p) \<and> ci_match nm ex (snd q)"
  have "length (filter (\<lambda>p. ci_match nm ex (snd p)) entries) > 1"
    by (rule filter_two[of p _ q]) (use h in simp_all)
  then show "select_target_by_name entries nm ex w =
          (Inl (BootOrderError (''Mehrdeutig: mehrere Eintr'' @ ae @ ''ge gefunden: ''
                 @ join ''; '' (map (\<lambda>(bid, desc). upper bid @ '':'' @ desc)
                                   (filter (\<lambda>p. ci_match nm ex (snd p)) entries))
                 @ ''. Nutzen Sie --exact oder --id.'')), w)"
    by (cases "filter (\<lambda>p. ci_match nm ex (snd p)) entries")
       (simp_all add: select_target_by_name_def matches_filter Let_def)
qed

theorem select_target_by_name_spec_witness:
  "fst (select_target_by_name example_entries ''ubuntu'' False world0) = Inr ''0002''
   \<and> fst (select_target_by_name example_entries ''boot'' False world0)
       = Inl (BootOrderError (''Kein Eintrag gefunden f'' @ ue @ ''r Name='' @ [CHR 0x27] @ ''boot''
                               @ [CHR 0x27] @ '' (exact=False).''))
   \<and> fst (select_target_by_name example_entries ''D'' False world0)
       = Inl (BootOrderError (''Mehrdeutig: mehrere Eintr'' @ ae @ ''ge gefunden: ''
                               @ ''0001:Windows; 0003:Debian'' @ ''. Nutzen Sie --exact oder --id.''))"
proof -
  have h1: "distinct (map fst example_entries) \<and> (''0002'', ''Ubuntu'') \<in> set example_entries
            \<and> ci_match ''ubuntu'' False ''Ubuntu''
            \<and> (\<forall>p\<in>set example_entries. ci_match ''ubuntu'' False (snd p) \<longrightarrow> p = (''0002'', ''Ubuntu''))"
    by code_simp
  have h2: "\<forall>p\<in>set example_entries. \<not> ci_match ''boot'' False (snd p)"
    by code_simp
  have h3: "(''0001'', ''Windows'') \<in> set example_entries \<and> (''0003'', ''Debian'') \<in> set example_entries
            \<and> (''0001'', ''Windows'') \<noteq> (''0003'', ''Debian'')
            \<and> ci_match ''D'' False (snd (''0001'', ''Windows'')) \<and> ci_match ''D'' False (snd (''0003'', ''Debian''))"
    by code_simp
  have e: "join ''; '' (map (\<lambda>(bid, desc). upper bid @ '':'' @ desc)
                          (filter (\<lambda>p. ci_match ''D'' False (snd p)) example_entries))
           = ''0001:Windows; 0003:Debian''"
    by code_simp
  have b: "str_bool False = ''False''" by code_simp
  from select_target_by_name_spec[of example_entries "''0002''" "''Ubuntu''" "''ubuntu''" False world0] h1
  have c1: "fst (select_target_by_name example_entries ''ubuntu'' False world0) = Inr ''0002''"
    by blast
  from select_target_by_name_spec[of example_entries _ _ "''boot''" False world0] h2
  have c2: "select_target_by_name example_entries ''boot'' False world0 =
          (Inl (BootOrderError (''Kein Eintrag gefunden f'' @ ue @ ''r Name='' @ [CHR 0x27] @ ''boot''
                                @ [CHR 0x27] @ '' (exact='' @ str_bool False @ '').'')), world0)"
    by blast
  from select_target_by_name_spec[of example_entries _ _ "''D''" False world0
         "(''0001'', ''Windows'')" "(''0003'', ''Debian'')"] h3
  have c3: "select_target_by_name example_entries ''D'' False world0 =
          (Inl (BootOrderError (''Mehrdeutig: mehrere Eintr'' @ ae @ ''ge gefunden: ''
                 @ join ''; '' (map (\<lambda>(bid, desc). upper bid @ '':'' @ desc)
                                   (filter (\<lambda>p. ci_match ''D'' False (snd p)) example_entries))
                 @ ''. Nutzen Sie --exact oder --id.'')), world0)"
    by blast
  show ?thesis
    unfolding c1 c2 c3 e b by simp
qed

text \<open>
  C5. When the tool has answered and its output parses into an order and entries,
  \<open>get_current_state\<close> cross-checks them: if some id of the order has no entry, it fails
  with a message that names the missing ids and returns no result; if every id of the order
  has an entry, it returns the parsed order and entries.
\<close>

theorem get_current_state_cross_check:
  "tool E (calls w) [] = Completed 0 out \<and> strip out \<noteq> []
     \<and> parse_boot_order out = Inr order \<and> parse_entries out = Inr entries
   \<longrightarrow> (x \<in> set order \<and> map_of entries x = None
         \<longrightarrow> x \<in> set (filter (\<lambda>x. \<not> dict_has entries x) order)
             \<and> fst (get_current_state E w) =
                 Inl (BootOrderError (''BootOrder enth'' @ ae @ ''lt unbekannte IDs: ''
                        @ join '', '' (filter (\<lambda>x. \<not> dict_has entries x) order))))
       \<and> ((\<forall>x\<in>set order. map_of entries x \<noteq> None)
         \<longrightarrow> fst (get_current_state E w) = Inr (order, entries))"
proof (intro impI)
  assume h: "tool E (calls w) [] = Completed 0 out \<and> strip out \<noteq> []
     \<and> parse_boot_order out = Inr order \<and> parse_entries out = Inr entries"
  then have run: "run_efibootmgr E [] w = (Inr out, w\<lparr>calls := calls w @ [[]]\<rparr>)"
    by (simp add: run_efibootmgr_def)
  show "(x \<in> set order \<and> map_of entries x = None
         \<longrightarrow> x \<in> set (filter (\<lambda>x. \<not> dict_has entries x) order)
             \<and> fst (get_current_state E w) =
                 Inl (BootOrderError (''BootOrder enth'' @ ae @ ''lt unbekannte IDs: ''
                        @ join '', '' (filter (\<lambda>x. \<not> dict_has entries x) order))))
       \<and> ((\<forall>x\<in>set order. map_of entries x \<noteq> None)
         \<longrightarrow> fst (get_current_state E w) = Inr (order, entries))"
  proof (intro conjI impI)
    assume m: "x \<in> set order \<and> map_of entries x = None"
    then have "x \<in> set (filter (\<lambda>x. \<not> dict_has entries x) order)"
      by (simp add: dict_has_def)
    then have "filter (\<lambda>x. \<not> dict_has entries x) order \<noteq> []" by (auto simp: filter_empty_conv)
    with h run show "fst (get_current_state E w) =
                 Inl (BootOrderError (''BootOrder enth'' @ ae @ ''lt unbekannte IDs: ''
                        @ join '', '' (filter (\<lambda>x. \<not> dict_has entries x) order)))"
      by (simp add: get_current_state_def Let_def)
    from m show "x \<in> set (filter (\<lambda>x. \<not> dict_has entries x) order)"
      by (simp add: dict_has_def)
  next
    assume "\<forall>x\<in>set order. map_of entries x \<noteq> None"
    then have "filter (\<lambda>x. \<not> dict_has entries x) order = []"
      by (simp add: dict_has_def filter_empty_conv)
    with h run show "fst (get_current_state E w) = Inr (order, entries)"
      by (simp add: get_current_state_def Let_def)
  qed
qed

theorem get_current_state_cross_check_witness:
  "fst (get_current_state (example_env\<lparr>tool := (\<lambda>history as. Completed 0 torn_output)\<rparr>) world0)
     = Inl (BootOrderError (''BootOrder enth'' @ ae @ ''lt unbekannte IDs: 0005''))
   \<and> fst (get_current_state example_env world0) = Inr ([''0001'', ''0002'', ''0003''], example_entries)"
proof -
  let ?E = "example_env\<lparr>tool := (\<lambda>history as. Completed 0 torn_output)\<rparr>"
  have h1: "tool ?E (calls world0) [] = Completed 0 torn_output \<and> strip torn_output \<noteq> []
     \<and> parse_boot_order torn_output = Inr [''0001'', ''0005'']
     \<and> parse_entries torn_output = Inr [(''0001'', ''Windows'')]"
    by code_simp
  have m1: "''0005'' \<in> set [''0001'', ''0005''] \<and> map_of [(''0001'', ''Windows'')] ''0005'' = None"
    by code_simp
  have j1: "join '', '' (filter (\<lambda>x. \<not> dict_has [(''0001'', ''Windows'')] x) [''0001'', ''0005'']) = ''0005''"
    by code_simp
  have h2: "tool example_env (calls world0) [] = Completed 0 example_output \<and> strip example_output \<noteq> []
     \<and> parse_boot_order example_output = Inr [''0001'', ''0002'', ''0003'']
     \<and> parse_entries example_output = Inr example_entries"
    by code_simp
  have m2: "\<forall>x\<in>set [''0001'', ''0002'', ''0003'']. map_of example_entries x \<noteq> None"
    by code_simp
  from get_current_state_cross_check[of ?E world0 torn_output "[''0001'', ''0005'']"
         "[(''0001'', ''Windows'')]" "''0005''"] h1 m1
  have c1: "fst (get_current_state ?E world0) =
                 Inl (BootOrderError (''BootOrder enth'' @ ae @ ''lt unbekannte IDs: ''
                        @ join '', '' (filter (\<lambda>x. \<not> dict_has [(''0001'', ''Windows'')] x) [''0001'', ''0005''])))"
    by blast
  from get_current_state_cross_check[of example_env world0 example_output "[''0001'', ''0002'', ''0003'']"
         example_entries] h2 m2
  have c2: "fst (get_current_state example_env world0) = Inr ([''0001'', ''0002'', ''0003''], example_entries)"
    by blast
  show ?thesis
    unfolding c1 c2 j1 by simp
qed

text \<open>
  C10. \<open>set_boot_order\<close> raises on the empty list and on a list with a malformed id, and then
  the world, with its record of the calls of the tool, is as before: the tool is not launched.
  Whenever \<open>set_boot_order\<close> does launch the tool, the order is non-empty, each of its ids has
  the shape of four lower-case hexadecimal digits, and the one call made passes \<^verbatim>\<open>-o\<close> with
  these ids, upper-cased and joined by commas. So in every run of \<open>main\<close>, whatever the
  surroundings and the command line, each call of the tool is the query or such a \<^verbatim>\<open>-o\<close> call.
\<close>

theorem set_boot_order_guard:
  "(order = []
      \<longrightarrow> set_boot_order E order w =
            (Inl (BootOrderError ''Leere BootOrder kann nicht gesetzt werden.''), w))
   \<and> (order \<noteq> [] \<and> list_ex (\<lambda>x. \<not> is_boot_id x) order
      \<longrightarrow> set_boot_order E order w =
            (Inl (BootOrderError (''Ung'' @ ue @ ''ltige Boot-ID im Order: '' @ repr_list order)), w))
   \<and> (calls (snd (set_boot_order E order w)) \<noteq> calls w
      \<longrightarrow> order \<noteq> [] \<and> list_all is_boot_id order
          \<and> calls (snd (set_boot_order E order w)) = calls w @ [[''-o'', join '','' (map upper order)]])
   \<and> (\<exists>cs. calls (snd (main E a w)) = calls w @ cs \<and> list_all well_formed_call cs)"
proof -
  have run: "\<exists>cs. calls (snd (main E a w)) = calls w @ cs \<and> list_all well_formed_call cs"
    using main_extends[of w E a] by (simp add: calls_extended_def)
  have empty: "set_boot_order E order w =
            (Inl (BootOrderError ''Leere BootOrder kann nicht gesetzt werden.''), w)"
    if "order = []"
    using that by (simp add: set_boot_order_def)
  have malformed: "set_boot_order E order w =
            (Inl (BootOrderError (''Ung'' @ ue @ ''ltige Boot-ID im Order: '' @ repr_list order)), w)"
    if "order \<noteq> [] \<and> list_ex (\<lambda>x. \<not> is_boot_id x) order"
    using that by (simp add: set_boot_order_def)
  have launch: "order \<noteq> [] \<and> list_all is_boot_id order
          \<and> calls (snd (set_boot_order E order w)) = calls w @ [[''-o'', join '','' (map upper order)]]"
    if ch: "calls (snd (set_boot_order E order w)) \<noteq> calls w"
  proof -
    have ok: "order \<noteq> [] \<and> \<not> list_ex (\<lambda>x. \<not> is_boot_id x) order"
    proof (rule ccontr)
      assume "\<not> (order \<noteq> [] \<and> \<not> list_ex (\<lambda>x. \<not> is_boot_id x) order)"
      then have "order = [] \<or> list_ex (\<lambda>x. \<not> is_boot_id x) order" by blast
      from set_boot_order_refuses[OF this, of E w] ch show False by auto
    qed
    then have "list_all is_boot_id order" by (simp add: list_all_iff list_ex_iff)
    moreover from ok
    have "calls (snd (set_boot_order E order w)) = calls w @ [[''-o'', join '','' (map upper order)]]"
      by (simp add: set_boot_order_world)
    ultimately show ?thesis using ok by simp
  qed
  from empty malformed launch run show ?thesis by blast
qed

theorem set_boot_order_guard_witness:
  "set_boot_order example_env [] world0 =
     (Inl (BootOrderError ''Leere BootOrder kann nicht gesetzt werden.''), world0)
   \<and> set_boot_order example_env [''0001'', ''02''] world0 =
     (Inl (BootOrderError (''Ung'' @ ue @ ''ltige Boot-ID im Order: ['' @ [CHR 0x27] @ ''0001''
                           @ [CHR 0x27] @ '', '' @ [CHR 0x27] @ ''02'' @ [CHR 0x27] @ '']'')), world0)
   \<and> calls (snd (set_boot_order example_env [''0002'', ''0001''] world0)) = [[''-o'', ''0002,0001'']]"
proof -
  have h2: "[''0001'', ''02''] \<noteq> [] \<and> list_ex (\<lambda>x. \<not> is_boot_id x) [''0001'', ''02'']"
    by code_simp
  have r2: "repr_list [''0001'', ''02''] = ''['' @ [CHR 0x27] @ ''0001'' @ [CHR 0x27] @ '', ''
                @ [CHR 0x27] @ ''02'' @ [CHR 0x27] @ '']''"
    by code_simp
  have h3: "calls (snd (set_boot_order example_env [''0002'', ''0001''] world0)) \<noteq> calls world0"
    by code_simp
  have j3: "calls world0 @ [[''-o'', join '','' (map upper [''0002'', ''0001''])]] = [[''-o'', ''0002,0001'']]"
    by code_simp
  from set_boot_order_guard[of "[]" example_env world0]
  have c1: "set_boot_order example_env [] world0 =
     (Inl (BootOrderError ''Leere BootOrder kann nicht gesetzt werden.''), world0)"
    by blast
  from set_boot_order_guard[of "[''0001'', ''02'']" example_env world0] h2
  have c2: "set_boot_order example_env [''0001'', ''02''] world0 =
     (Inl (BootOrderError (''Ung'' @ ue @ ''ltige Boot-ID im Order: '' @ repr_list [''0001'', ''02''])), world0)"
    by blast
  from set_boot_order_guard[of "[''0002'', ''0001'']" example_env world0] h3
  have c3: "calls (snd (set_boot_order example_env [''0002'', ''0001''] world0))
            = calls world0 @ [[''-o'', join '','' (map upper [''0002'', ''0001''])]]"
    by blast
  show ?thesis
    unfolding c1 c2 c3 r2 j3 by simp
qed

text \<open>
  C2. Whatever happens after the state is read (the backup cannot be written, no target is
  found, the tool fails or raises, the keyboard gives end of file or an interrupt, or all goes
  well), the restore step runs before \<open>main\<close> ends. Without \<^verbatim>\<open>--restore-from-backup\<close>: when
  the preflight checks and the read succeeded, the last call of the tool in the run is the
  restore step's \<^verbatim>\<open>-o\<close> with the original order as it was read; when a preflight check or
  the read failed, the restore step logs the warning and calls the tool with no order (the
  only call the run may have made is the query). With \<^verbatim>\<open>--restore-from-backup\<close> the restore
  step runs as well: its opening log record is there at the end of every run.
\<close>

theorem guaranteed_restore:
  "(\<not> restore_from_backup a \<and> ensure_root E = Inr () \<and> ensure_efibootmgr_available E = Inr ()
      \<and> fst (get_current_state E w0) = Inr (original_order, entries)
    \<longrightarrow> last (calls (snd (main E a w0))) = [''-o'', join '','' (map upper original_order)]
        \<and> (INFO, ''Stelle urspr'' @ ue @ ''ngliche BootOrder wieder her...'')
             \<in> set (logged (snd (main E a w0))))
   \<and> (\<not> restore_from_backup a
      \<and> (ensure_root E = Inl e \<or> ensure_efibootmgr_available E = Inl e
          \<or> fst (get_current_state E w0) = Inl e)
    \<longrightarrow> (calls (snd (main E a w0)) = calls w0 \<or> calls (snd (main E a w0)) = calls w0 @ [[]])
        \<and> (WARNING, ''Originalzustand unbekannt - keine Wiederherstellung m'' @ oe @ ''glich.'')
             \<in> set (logged (snd (main E a w0))))
   \<and> (restore_from_backup a
    \<longrightarrow> (INFO, ''Stelle BootOrder aus Backup wieder her: '' @ backup a)
             \<in> set (logged (snd (main E a w0))))"
proof -
  obtain r snap w2 where tb: "try_body E a (verbose_setup a w0) = (r, snap, w2)"
    by (cases "try_body E a (verbose_setup a w0)")
  obtain in_flight w3 where ec: "except_clauses r w2 = (in_flight, w3)"
    by (cases "except_clauses r w2")
  obtain x w4 where fb: "finally_block E a snap w3 = (x, w4)"
    by (cases "finally_block E a snap w3")
  from main_unfold[OF tb ec fb] have m: "snd (main E a w0) = w4" by simp
  from except_clauses_calls[of r w2] ec have c3: "calls w3 = calls w2" by simp
  have gr: "fst (get_current_state E (verbose_setup a w0)) = fst (get_current_state E w0)"
    by (rule get_current_state_result) simp
  have A: "last (calls w4) = [''-o'', join '','' (map upper original_order)]
        \<and> (INFO, ''Stelle urspr'' @ ue @ ''ngliche BootOrder wieder her...'') \<in> set (logged w4)"
    if h: "\<not> restore_from_backup a \<and> ensure_root E = Inr () \<and> ensure_efibootmgr_available E = Inr ()
      \<and> fst (get_current_state E w0) = Inr (original_order, entries)"
  proof -
    from h gr have g: "fst (get_current_state E (verbose_setup a w0)) = Inr (original_order, entries)"
      by simp
    from h try_body_snapshot[OF _ _ g, of a] tb have snap: "snap = Some original_order" by simp
    from get_current_state_valid[OF g]
    have v: "original_order \<noteq> []" "\<not> list_ex (\<lambda>x. \<not> is_boot_id x) original_order" by simp_all
    from h have nb: "\<not> restore_from_backup a" by simp
    from finally_block_original[OF nb v, of E w3] fb snap show ?thesis by simp
  qed
  have B: "(calls w4 = calls w0 \<or> calls w4 = calls w0 @ [[]])
        \<and> (WARNING, ''Originalzustand unbekannt - keine Wiederherstellung m'' @ oe @ ''glich.'')
             \<in> set (logged w4)"
    if h: "\<not> restore_from_backup a
      \<and> (ensure_root E = Inl e \<or> ensure_efibootmgr_available E = Inl e
          \<or> fst (get_current_state E w0) = Inl e)"
  proof -
    from h gr have g: "ensure_root E = Inl e \<or> ensure_efibootmgr_available E = Inl e
           \<or> fst (get_current_state E (verbose_setup a w0)) = Inl e"
      by simp
    from try_body_no_snapshot[OF g, of a] tb
    have snap: "snap = None" and c2: "calls w2 = calls w0 \<or> calls w2 = calls w0 @ [[]]" by simp_all
    from h have nb: "\<not> restore_from_backup a" by simp
    from finally_block_unknown[OF nb, of E w3] fb snap
    have "w4 = logging INFO ''Wiederherstellung abgeschlossen.''
                    (logging WARNING (''Originalzustand unbekannt - keine Wiederherstellung m''
                                      @ oe @ ''glich.'') w3)"
      by simp
    with c2 c3 show ?thesis by auto
  qed
  have C: "(INFO, ''Stelle BootOrder aus Backup wieder her: '' @ backup a) \<in> set (logged w4)"
    if h: "restore_from_backup a"
    using finally_block_backup_logged[OF h, of E snap w3] fb by simp
  from A B C show ?thesis unfolding m by blast
qed

theorem guaranteed_restore_witness:
  "last (calls (snd (main (example_env\<lparr>keyboard := CtrlC\<rparr>) (example_args\<lparr>no_prompt := False\<rparr>) world0)))
     = [''-o'', ''0001,0002,0003'']
   \<and> (WARNING, ''Originalzustand unbekannt - keine Wiederherstellung m'' @ oe @ ''glich.'')
       \<in> set (logged (snd (main (example_env\<lparr>which_efibootmgr := False\<rparr>) example_args world0)))
   \<and> (INFO, ''Stelle BootOrder aus Backup wieder her: /var/backups/bootorder.txt'')
       \<in> set (logged (snd (main example_env (example_args\<lparr>restore_from_backup := True\<rparr>) world0)))"
proof -
  let ?E1 = "example_env\<lparr>keyboard := CtrlC\<rparr>" and ?A1 = "example_args\<lparr>no_prompt := False\<rparr>"
  let ?E2 = "example_env\<lparr>which_efibootmgr := False\<rparr>"
  let ?A3 = "example_args\<lparr>restore_from_backup := True\<rparr>"
  have h1: "\<not> restore_from_backup ?A1 \<and> ensure_root ?E1 = Inr () \<and> ensure_efibootmgr_available ?E1 = Inr ()
      \<and> fst (get_current_state ?E1 world0) = Inr ([''0001'', ''0002'', ''0003''], example_entries)"
    by code_simp
  have j1: "join '','' (map upper [''0001'', ''0002'', ''0003'']) = ''0001,0002,0003''"
    by code_simp
  have h2: "\<not> restore_from_backup example_args
      \<and> (ensure_root ?E2 = Inl (BootOrderError ''efibootmgr ist nicht installiert oder nicht im PATH.'')
          \<or> ensure_efibootmgr_available ?E2 = Inl (BootOrderError ''efibootmgr ist nicht installiert oder nicht im PATH.'')
          \<or> fst (get_current_state ?E2 world0) = Inl (BootOrderError ''efibootmgr ist nicht installiert oder nicht im PATH.''))"
    by code_simp
  have h3: "restore_from_backup ?A3" "backup ?A3 = ''/var/backups/bootorder.txt''"
    by code_simp+
  from guaranteed_restore[of ?A1 ?E1 world0 "[''0001'', ''0002'', ''0003'']" example_entries] h1
  have c1: "last (calls (snd (main ?E1 ?A1 world0))) = [''-o'', join '','' (map upper [''0001'', ''0002'', ''0003''])]"
    by blast
  from guaranteed_restore[of example_args ?E2 world0 _ _
         "BootOrderError ''efibootmgr ist nicht installiert oder nicht im PATH.''"] h2
  have c2: "(WARNING, ''Originalzustand unbekannt - keine Wiederherstellung m'' @ oe @ ''glich.'')
       \<in> set (logged (snd (main ?E2 example_args world0)))"
    by blast
  from guaranteed_restore[of ?A3 example_env world0] h3(1)
  have c3: "(INFO, ''Stelle BootOrder aus Backup wieder her: '' @ backup ?A3)
       \<in> set (logged (snd (main example_env ?A3 world0)))"
    by blast
  from c1 c2 c3 show ?thesis
    unfolding j1 h3(2) by simp
qed

text \<open>
  C3. When the body of the restore step raises a \<open>BootOrderError\<close> or another
  \<^verbatim>\<open>Exception\<close>, no exception leaves the restore step, the failure is the last thing logged
  (at level ERROR), and the process ends with the exit the primary flow determined: 0 after
  success, 1 after a \<open>BootOrderError\<close>, 2 after another exception.
\<close>

theorem restore_failure_contained:
  "restore_result E a w0 = Inl e \<and> (e = BootOrderError m \<or> e = OtherException m)
   \<longrightarrow> restore_propagates E a w0 = None
       \<and> last (logged (snd (main E a w0))) =
           (ERROR, if e = BootOrderError m then ''Wiederherstellung fehlgeschlagen: '' @ m
                   else ''Unerwarteter Fehler bei der Wiederherstellung.'')
       \<and> fst (main E a w0) = primary_exit (fst (primary_flow E a w0))"
proof (intro impI)
  assume h: "restore_result E a w0 = Inl e \<and> (e = BootOrderError m \<or> e = OtherException m)"
  obtain r snapshot w2 where tb: "try_body E a (verbose_setup a w0) = (r, snapshot, w2)"
    by (cases "try_body E a (verbose_setup a w0)")
  obtain in_flight w3 where ec: "except_clauses r w2 = (in_flight, w3)"
    by (cases "except_clauses r w2")
  obtain rr w4 where rb: "restore_body E a snapshot w3 = (rr, w4)"
    by (cases "restore_body E a snapshot w3")
  from h tb ec rb have rr: "rr = Inl e" by (simp add: restore_result_def primary_flow_def)
  from h rb rr have fb: "finally_block E a snapshot w3 =
         (None, logging ERROR (if e = BootOrderError m
                               then ''Wiederherstellung fehlgeschlagen: '' @ m
                               else ''Unerwarteter Fehler bei der Wiederherstellung.'') w4)"
    by (auto simp: finally_block_def)
  from ec have fl: "(case in_flight of None \<Rightarrow> Exit 0 | Some y \<Rightarrow> y) = primary_exit r"
    by (auto simp: except_clauses_def primary_exit_def split: sum.splits exn.splits)
  from main_unfold[OF tb ec fb] fl
  have m: "main E a w0 = (primary_exit r, logging ERROR (if e = BootOrderError m
                               then ''Wiederherstellung fehlgeschlagen: '' @ m
                               else ''Unerwarteter Fehler bei der Wiederherstellung.'') w4)"
    by simp
  from tb ec fb have p: "restore_propagates E a w0 = None"
    by (simp add: restore_propagates_def primary_flow_def)
  from m p tb show "restore_propagates E a w0 = None
       \<and> last (logged (snd (main E a w0))) =
           (ERROR, if e = BootOrderError m then ''Wiederherstellung fehlgeschlagen: '' @ m
                   else ''Unerwarteter Fehler bei der Wiederherstellung.'')
       \<and> fst (main E a w0) = primary_exit (fst (primary_flow E a w0))"
    by (simp add: primary_flow_def)
qed

theorem restore_failure_contained_witness:
  "fst (main (failing_restore_env 1 TimeoutExpired) (example_args\<lparr>name := Some ''boot''\<rparr>) world0) = Exit 1
   \<and> fst (main (failing_restore_env 2 (Raises ''codec error'')) example_args world0) = Exit 0
   \<and> last (logged (snd (main (failing_restore_env 2 (Raises ''codec error'')) example_args world0)))
       = (ERROR, ''Unerwarteter Fehler bei der Wiederherstellung.'')"
proof -
  let ?E1 = "failing_restore_env 1 TimeoutExpired" and ?A1 = "example_args\<lparr>name := Some ''boot''\<rparr>"
  let ?E2 = "failing_restore_env 2 (Raises ''codec error'')"
  let ?m1 = "''efibootmgr-Zugriff hat das Timeout (10s) '' @ ue @ ''berschritten.''"
  have h1: "restore_result ?E1 ?A1 world0 = Inl (BootOrderError ?m1)
            \<and> (BootOrderError ?m1 = BootOrderError ?m1 \<or> BootOrderError ?m1 = OtherException ?m1)"
    by code_simp
  have p1: "primary_exit (fst (primary_flow ?E1 ?A1 world0)) = Exit 1"
    by code_simp
  have h2: "restore_result ?E2 example_args world0 = Inl (OtherException ''codec error'')
            \<and> (OtherException ''codec error'' = BootOrderError ''codec error''
                \<or> OtherException ''codec error'' = OtherException ''codec error'')"
    by code_simp
  have p2: "primary_exit (fst (primary_flow ?E2 example_args world0)) = Exit 0"
    by code_simp
  from restore_failure_contained[of ?E1 ?A1 world0 "BootOrderError ?m1" ?m1] h1
  have c1: "fst (main ?E1 ?A1 world0) = primary_exit (fst (primary_flow ?E1 ?A1 world0))"
    by blast
  from restore_failure_contained[of ?E2 example_args world0 "OtherException ''codec error''" "''codec error''"] h2
  have c2: "fst (main ?E2 example_args world0) = primary_exit (fst (primary_flow ?E2 example_args world0))"
    and c3: "last (logged (snd (main ?E2 example_args world0))) =
           (ERROR, if OtherException ''codec error'' = BootOrderError ''codec error''
                   then ''Wiederherstellung fehlgeschlagen: '' @ ''codec error''
                   else ''Unerwarteter Fehler bei der Wiederherstellung.'')"
    by blast+
  from c1 c2 c3 p1 p2 show ?thesis by simp
qed

text \<open>
  C9. The restore step with \<^verbatim>\<open>--restore-from-backup\<close>, when the backup file gives an order
  and the state is read again: if an id of the backup order has no entry in the entries just
  read, then no exception leaves the restore step, the only call of the tool in the step is the
  query (\<open>set_boot_order\<close> is not reached), and the last thing logged is the failure, which
  names the missing ids in upper case.
\<close>

theorem restore_from_backup_missing_ids:
  "restore_from_backup a \<and> read_backup_order E (backup a) w = Inr backup_order
     \<and> fst (get_current_state E w) = Inr (order, current_entries)
     \<and> x \<in> set backup_order \<and> map_of current_entries x = None
   \<longrightarrow> x \<in> set (filter (\<lambda>x. \<not> dict_has current_entries x) backup_order)
       \<and> fst (finally_block E a snapshot w) = None
       \<and> calls (snd (finally_block E a snapshot w)) = calls w @ [[]]
       \<and> last (logged (snd (finally_block E a snapshot w))) =
           (ERROR, ''Wiederherstellung fehlgeschlagen: ''
                   @ ''Backup/Order enth'' @ ae @ ''lt unbekannte IDs (aktuell nicht vorhanden): ''
                   @ join '', '' (map upper (filter (\<lambda>x. \<not> dict_has current_entries x) backup_order)))"
proof (intro impI)
  assume h: "restore_from_backup a \<and> read_backup_order E (backup a) w = Inr backup_order
     \<and> fst (get_current_state E w) = Inr (order, current_entries)
     \<and> x \<in> set backup_order \<and> map_of current_entries x = None"
  let ?w1 = "logging INFO (''Stelle BootOrder aus Backup wieder her: '' @ backup a) w"
  let ?missing = "filter (\<lambda>x. \<not> dict_has current_entries x) backup_order"
  let ?msg = "''Backup/Order enth'' @ ae @ ''lt unbekannte IDs (aktuell nicht vorhanden): ''
                   @ join '', '' (map upper ?missing)"
  from h have rd: "read_backup_order E (backup a) ?w1 = Inr backup_order"
    using read_backup_order_files[of ?w1 w E "backup a"] by simp
  obtain g w2 where gs: "get_current_state E ?w1 = (g, w2)" by (cases "get_current_state E ?w1")
  from get_current_state_world[of E ?w1] gs
  have w2: "w2 = ?w1\<lparr>calls := calls w @ [[]]\<rparr>" by simp
  from get_current_state_result[of ?w1 w E] gs h have g: "g = Inr (order, current_entries)" by simp
  from h have xm: "x \<in> set ?missing" by (simp add: dict_has_def)
  then have ne: "?missing \<noteq> []" by (auto simp: filter_empty_conv)
  then have v: "validate_ids_exist backup_order current_entries = Inl (BootOrderError ?msg)"
    by (simp add: validate_ids_exist_def Let_def)
  from h rd gs g v have rb: "restore_body E a snapshot w = (Inl (BootOrderError ?msg), w2)"
    by (simp add: restore_body_def)
  then have fb: "finally_block E a snapshot w =
                   (None, logging ERROR (''Wiederherstellung fehlgeschlagen: '' @ ?msg) w2)"
    by (simp add: finally_block_def)
  from xm fb w2 show "x \<in> set ?missing
       \<and> fst (finally_block E a snapshot w) = None
       \<and> calls (snd (finally_block E a snapshot w)) = calls w @ [[]]
       \<and> last (logged (snd (finally_block E a snapshot w))) =
           (ERROR, ''Wiederherstellung fehlgeschlagen: '' @ ?msg)"
    by simp
qed

theorem restore_from_backup_missing_ids_witness:
  "fst (finally_block two_entries_env (example_args\<lparr>restore_from_backup := True\<rparr>) None
          (stale_world ''BootOrder=0003,0001'')) = None
   \<and> calls (snd (finally_block two_entries_env (example_args\<lparr>restore_from_backup := True\<rparr>) None
          (stale_world ''BootOrder=0003,0001''))) = [[]]
   \<and> last (logged (snd (finally_block two_entries_env (example_args\<lparr>restore_from_backup := True\<rparr>) None
          (stale_world ''BootOrder=0003,0001'')))) =
         (ERROR, ''Wiederherstellung fehlgeschlagen: ''
                 @ ''Backup/Order enth'' @ ae @ ''lt unbekannte IDs (aktuell nicht vorhanden): 0003'')"
proof -
  let ?A = "example_args\<lparr>restore_from_backup := True\<rparr>"
  let ?w = "stale_world ''BootOrder=0003,0001''"
  let ?ents = "[(''0001'', ''Windows''), (''0002'', ''Ubuntu'')]"
  have h: "restore_from_backup ?A \<and> read_backup_order two_entries_env (backup ?A) ?w = Inr [''0003'', ''0001'']
     \<and> fst (get_current_state two_entries_env ?w) = Inr ([''0001'', ''0002''], ?ents)
     \<and> ''0003'' \<in> set [''0003'', ''0001''] \<and> map_of ?ents ''0003'' = None"
    by code_simp
  have j: "join '', '' (map upper (filter (\<lambda>x. \<not> dict_has ?ents x) [''0003'', ''0001''])) = ''0003''"
    by code_simp
  have c: "calls ?w @ [[]] = [[]]" by code_simp
  from restore_from_backup_missing_ids[of ?A two_entries_env ?w "[''0003'', ''0001'']"
          "[''0001'', ''0002'']" ?ents "''0003''" None] h
  have "fst (finally_block two_entries_env ?A None ?w) = None
       \<and> calls (snd (finally_block two_entries_env ?A None ?w)) = calls ?w @ [[]]
       \<and> last (logged (snd (finally_block two_entries_env ?A None ?w))) =
           (ERROR, ''Wiederherstellung fehlgeschlagen: ''
                   @ ''Backup/Order enth'' @ ae @ ''lt unbekannte IDs (aktuell nicht vorhanden): ''
                   @ join '', '' (map upper (filter (\<lambda>x. \<not> dict_has ?ents x) [''0003'', ''0001''])))"
    by blast
  then show ?thesis unfolding j c by simp
qed

text \<open>
  C7, the claim as stated: in a run in which the backup cannot be written, the only call of
  the tool that changes the firmware is the restore step's re-application of the original
  order. It fails with \<^verbatim>\<open>--restore-from-backup\<close>: the restore step then reads the file that
  is at the path and applies its order, which need not be the original one. In the run below
  the order read is 0001, 0002, writing the backup fails, the process exits with 1, and the
  tool is called with \<^verbatim>\<open>-o 0002,0001\<close>.
\<close>



theorem backup_failure_blocks_apply_counterexample:
  "fst (get_current_state read_only_env (stale_world ''BootOrder=0002,0001''))
     = Inr ([''0001'', ''0002''], [(''0001'', ''Windows''), (''0002'', ''Ubuntu'')])
   \<and> fst (write_backup read_only_env ''/var/backups/bootorder.txt'' [''0001'', ''0002'']
            [(''0001'', ''Windows''), (''0002'', ''Ubuntu'')] (stale_world ''BootOrder=0002,0001''))
     = Inl (BootOrderError ''Backup konnte nicht geschrieben werden: /var/backups/bootorder.txt ([Errno 30] Read-only file system)'')
   \<and> fst (main read_only_env (example_args\<lparr>restore_from_backup := True\<rparr>)
              (stale_world ''BootOrder=0002,0001'')) = Exit 1
   \<and> calls (snd (main read_only_env (example_args\<lparr>restore_from_backup := True\<rparr>)
                   (stale_world ''BootOrder=0002,0001'')))
     = [[], [], [''-o'', ''0002,0001'']]"
  by code_simp

text \<open>
  C7, amended. When the preflight checks and the read succeed and writing the backup raises,
  the primary flow ends with the backup error after its one query of the tool: the apply step
  is not reached. The calls that follow are those of the restore step: without
  \<^verbatim>\<open>--restore-from-backup\<close> the one call \<^verbatim>\<open>-o\<close> with the original order; with it, no call,
  or a query, or a query and \<^verbatim>\<open>-o\<close> with the order read from the backup file that is at the
  path.
\<close>

theorem backup_failure_blocks_apply:
  "ensure_root E = Inr () \<and> ensure_efibootmgr_available E = Inr ()
     \<and> fst (get_current_state E w0) = Inr (original_order, entries)
     \<and> write_raises E (backup a) = Some (m, left)
   \<longrightarrow> fst (primary_flow E a w0) =
         Inl (BootOrderError (''Backup konnte nicht geschrieben werden: '' @ backup a @ '' ('' @ m @ '')''))
       \<and> calls (snd (snd (primary_flow E a w0))) = calls w0 @ [[]]
       \<and> (\<not> restore_from_backup a
          \<longrightarrow> calls (snd (main E a w0)) = calls w0 @ [[], [''-o'', join '','' (map upper original_order)]])
       \<and> (restore_from_backup a
          \<longrightarrow> calls (snd (main E a w0)) = calls w0 @ [[]]
              \<or> calls (snd (main E a w0)) = calls w0 @ [[], []]
              \<or> (\<exists>ids. read_backup_order E (backup a) (snd (snd (primary_flow E a w0))) = Inr ids
                     \<and> calls (snd (main E a w0))
                         = calls w0 @ [[], [], [''-o'', join '','' (map upper ids)]]))"
proof (intro impI)
  assume h: "ensure_root E = Inr () \<and> ensure_efibootmgr_available E = Inr ()
     \<and> fst (get_current_state E w0) = Inr (original_order, entries)
     \<and> write_raises E (backup a) = Some (m, left)"
  let ?v = "verbose_setup a w0"
  let ?msg = "''Backup konnte nicht geschrieben werden: '' @ backup a @ '' ('' @ m @ '')''"
  obtain g w1 where gs: "get_current_state E ?v = (g, w1)" by (cases "get_current_state E ?v")
  from get_current_state_world[of E ?v] gs have w1: "calls w1 = calls w0 @ [[]]" by simp
  from get_current_state_result[of ?v w0 E] gs h have g: "g = Inr (original_order, entries)" by simp
  from h have wr: "write_raises E (backup a) = Some (m, left)" by simp
  obtain r snap w2 where tb: "try_body E a ?v = (r, snap, w2)" by (cases "try_body E a ?v")
  from h gs g tb have tb': "r = fst (after_read E a original_order entries w1)"
    "snap = Some original_order" "w2 = snd (after_read E a original_order entries w1)"
    by (auto simp: try_body_def split: prod.splits)
  with after_read_write_fails[OF wr, of original_order entries w1] w1
  have r: "r = Inl (BootOrderError ?msg)" and c2: "calls w2 = calls w0 @ [[]]" by simp_all
  obtain in_flight w3 where ec: "except_clauses r w2 = (in_flight, w3)" by (cases "except_clauses r w2")
  from r ec have w3: "w3 = logging ERROR (''Fehler: '' @ ?msg) w2" by (simp add: except_clauses_def)
  obtain x w4 where fb: "finally_block E a snap w3 = (x, w4)" by (cases "finally_block E a snap w3")
  from main_unfold[OF tb ec fb] have m: "snd (main E a w0) = w4" by simp
  from gs g have "fst (get_current_state E ?v) = Inr (original_order, entries)" by simp
  from get_current_state_valid[OF this]
  have ok: "original_order \<noteq> []" "\<not> list_ex (\<lambda>x. \<not> is_boot_id x) original_order" by simp_all
  have A: "calls w4 = calls w0 @ [[], [''-o'', join '','' (map upper original_order)]]"
    if nb: "\<not> restore_from_backup a"
    using finally_block_original(1)[OF nb ok, of E w3] fb tb'(2) w3 c2 by simp
  have B: "calls w4 = calls w0 @ [[]]
              \<or> calls w4 = calls w0 @ [[], []]
              \<or> (\<exists>ids. read_backup_order E (backup a) w2 = Inr ids
                     \<and> calls w4 = calls w0 @ [[], [], [''-o'', join '','' (map upper ids)]])"
    if b: "restore_from_backup a"
  proof -
    have "read_backup_order E (backup a) w3 = read_backup_order E (backup a) w2"
      by (rule read_backup_order_files) (simp add: w3)
    with finally_block_backup_calls[OF b, of E snap w3] fb w3 c2 show ?thesis by auto
  qed
  from tb r c2 A B show "fst (primary_flow E a w0) = Inl (BootOrderError ?msg)
       \<and> calls (snd (snd (primary_flow E a w0))) = calls w0 @ [[]]
       \<and> (\<not> restore_from_backup a
          \<longrightarrow> calls (snd (main E a w0)) = calls w0 @ [[], [''-o'', join '','' (map upper original_order)]])
       \<and> (restore_from_backup a
          \<longrightarrow> calls (snd (main E a w0)) = calls w0 @ [[]]
              \<or> calls (snd (main E a w0)) = calls w0 @ [[], []]
              \<or> (\<exists>ids. read_backup_order E (backup a) (snd (snd (primary_flow E a w0))) = Inr ids
                     \<and> calls (snd (main E a w0))
                         = calls w0 @ [[], [], [''-o'', join '','' (map upper ids)]]))"
    unfolding m by (simp add: primary_flow_def)
qed

theorem backup_failure_blocks_apply_witness:
  "calls (snd (main read_only_env example_args world0)) = [[], [''-o'', ''0001,0002'']]
   \<and> fst (primary_flow read_only_env (example_args\<lparr>restore_from_backup := True\<rparr>) world0)
       = Inl (BootOrderError ''Backup konnte nicht geschrieben werden: /var/backups/bootorder.txt ([Errno 30] Read-only file system)'')
   \<and> calls (snd (snd (primary_flow read_only_env (example_args\<lparr>restore_from_backup := True\<rparr>) world0))) = [[]]"
proof -
  let ?A = "example_args\<lparr>restore_from_backup := True\<rparr>"
  let ?ents = "[(''0001'', ''Windows''), (''0002'', ''Ubuntu'')]"
  have h1: "ensure_root read_only_env = Inr () \<and> ensure_efibootmgr_available read_only_env = Inr ()
     \<and> fst (get_current_state read_only_env world0) = Inr ([''0001'', ''0002''], ?ents)
     \<and> write_raises read_only_env (backup example_args) = Some (''[Errno 30] Read-only file system'', None)"
    by code_simp
  have h2: "ensure_root read_only_env = Inr () \<and> ensure_efibootmgr_available read_only_env = Inr ()
     \<and> fst (get_current_state read_only_env world0) = Inr ([''0001'', ''0002''], ?ents)
     \<and> write_raises read_only_env (backup ?A) = Some (''[Errno 30] Read-only file system'', None)"
    by code_simp
  have n1: "\<not> restore_from_backup example_args" by code_simp
  have j1: "calls world0 @ [[], [''-o'', join '','' (map upper [''0001'', ''0002''])]] = [[], [''-o'', ''0001,0002'']]"
    by code_simp
  have j2: "''Backup konnte nicht geschrieben werden: '' @ backup ?A @ '' ('' @ ''[Errno 30] Read-only file system'' @ '')''
            = ''Backup konnte nicht geschrieben werden: /var/backups/bootorder.txt ([Errno 30] Read-only file system)''"
    by code_simp
  have j3: "calls world0 @ [[]] = [[]]" by code_simp
  from backup_failure_blocks_apply[of read_only_env world0 "[''0001'', ''0002'']" ?ents example_args
         "''[Errno 30] Read-only file system''" None] h1 n1
  have c1: "calls (snd (main read_only_env example_args world0))
            = calls world0 @ [[], [''-o'', join '','' (map upper [''0001'', ''0002''])]]"
    by blast
  from backup_failure_blocks_apply[of read_only_env world0 "[''0001'', ''0002'']" ?ents ?A
         "''[Errno 30] Read-only file system''" None] h2
  have c2: "fst (primary_flow read_only_env ?A world0) =
         Inl (BootOrderError (''Backup konnte nicht geschrieben werden: '' @ backup ?A @ '' ('' @ ''[Errno 30] Read-only file system'' @ '')''))"
    and c3: "calls (snd (snd (primary_flow read_only_env ?A world0))) = calls world0 @ [[]]"
    by blast+
  from c1 c2 c3 show ?thesis unfolding j1 j2 j3 by simp
qed

text \<open>
  C1. The round trip through the backup file does not reproduce the order: \<open>write_backup\<close>
  writes the header, the order and the entries with no line break between them, so the file is
  one line that starts with the header, and \<open>read_backup_order\<close>, which looks for a line that
  starts with \<^verbatim>\<open>BootOrder=\<close>, finds none (\<open>written_backup_is_unreadable\<close> above, for every
  order, entries and time stamp without a line boundary). The run below parses the example
  output, writes the backup and reads it back.
\<close>

theorem backup_roundtrip_fails:
  "parse_boot_order example_output = Inr [''0001'', ''0002'', ''0003'']
   \<and> parse_entries example_output = Inr example_entries
   \<and> fst (write_backup example_env ''/var/backups/bootorder.txt'' [''0001'', ''0002'', ''0003'']
            example_entries world0) = Inr ()
   \<and> files (snd (write_backup example_env ''/var/backups/bootorder.txt'' [''0001'', ''0002'', ''0003'']
                   example_entries world0)) ''/var/backups/bootorder.txt''
       = Some ''# Backup erstellt: 2024-05-01T10:00:00.000001BootOrder=0001,0002,0003 BootEntry 0001=Windows BootEntry 0002=Ubuntu BootEntry 0003=Debian ''
   \<and> read_backup_order example_env ''/var/backups/bootorder.txt''
         (snd (write_backup example_env ''/var/backups/bootorder.txt'' [''0001'', ''0002'', ''0003'']
                 example_entries world0))
       = Inl (BootOrderError ''Backup konnte nicht gelesen werden: /var/backups/bootorder.txt (BootOrder= Zeile im Backup fehlt.)'')"
  by code_simp

text \<open>
  C8. With \<^verbatim>\<open>--id\<close> given the empty string, which has not the shape of an id, the test
  \<^verbatim>\<open>if args.id:\<close> fails and \<open>main\<close> goes on to select by name with \<^verbatim>\<open>args.name\<close>, which is
  \<^verbatim>\<open>None\<close>: the run ends with the exit 2 of an unanticipated failure. A malformed id that is
  not empty and a well-formed id that is no key of the entries end with exit 1, and a
  well-formed id that is a key is put first.
\<close>

theorem empty_id_exits_2:
  "parse_id [] = []
   \<and> \<not> is_boot_id (parse_id [])
   \<and> fst (main example_env (example_args\<lparr>name := None, id_arg := Some (parse_id [])\<rparr>) world0) = Exit 2
   \<and> (ERROR, ''Unerwarteter Fehler aufgetreten.'')
       \<in> set (logged (snd (main example_env (example_args\<lparr>name := None, id_arg := Some (parse_id [])\<rparr>) world0)))
   \<and> fst (main example_env (example_args\<lparr>name := None, id_arg := Some (parse_id ''00G1'')\<rparr>) world0) = Exit 1
   \<and> fst (main example_env (example_args\<lparr>name := None, id_arg := Some (parse_id ''0009'')\<rparr>) world0) = Exit 1
   \<and> calls (snd (main example_env (example_args\<lparr>name := None, id_arg := Some (parse_id ''0003'')\<rparr>) world0))
       = [[], [''-o'', ''0003,0001,0002''], [''-o'', ''0001,0002,0003'']]"
  by code_simp

end
